theory Spec2Isabelle
  imports Complex_Main "HOL-Library.Word"
begin

section \<open>JavaScript values\<close>

text \<open>
  A JavaScript string is a sequence of UTF-16 code units. String literals of the source
  are ASCII; \<open>utf16\<close> turns an ASCII literal into its code units.
\<close>

type_synonym jsstring = "16 word list"

definition utf16 :: "string \<Rightarrow> jsstring" where
  "utf16 s = map of_char s"

text \<open>
  The values the modelled code handles dynamically (fields of a caught error, cells of a
  database row, JSON-LD fragments). Numbers are modelled as reals: NaN, the infinities
  and the rounding of doubles are outside the model.
\<close>

datatype jsvalue =
    Undefined
  | Null
  | Boolean bool
  | Number real
  | String jsstring
  | Array "jsvalue list"
  | Object "(jsstring \<times> jsvalue) list"

text \<open>ToBoolean: what \<open>!v\<close>, \<open>v ? a : b\<close>, \<open>v || w\<close> and \<open>Boolean(v)\<close> test.\<close>

fun truthy :: "jsvalue \<Rightarrow> bool" where
  "truthy Undefined = False"
| "truthy Null = False"
| "truthy (Boolean b) = b"
| "truthy (Number x) = (x \<noteq> 0)"
| "truthy (String s) = (s \<noteq> [])"
| "truthy (Array _) = True"
| "truthy (Object _) = True"

text \<open>\<open>a || b\<close> on values.\<close>

definition or_else :: "jsvalue \<Rightarrow> jsvalue \<Rightarrow> jsvalue" where
  "or_else a b = (if truthy a then a else b)"

text \<open>\<open>s.startsWith(t)\<close> and \<open>s.includes(t)\<close> (\<open>str_includes\<close>) on code-unit sequences.\<close>

fun startsWith :: "'a list \<Rightarrow> 'a list \<Rightarrow> bool" where
  "startsWith s [] = True"
| "startsWith [] (c # t) = False"
| "startsWith (d # s) (c # t) = (d = c \<and> startsWith s t)"

fun str_includes :: "'a list \<Rightarrow> 'a list \<Rightarrow> bool" where
  "str_includes [] t = (t = [])"
| "str_includes (c # s) t = (startsWith (c # s) t \<or> str_includes s t)"

section \<open>Thrown values\<close>

text \<open>
  What \<open>retryWithBackoff\<close> reads of a caught value: \<open>error?.status\<close>,
  \<open>error?.response?.status\<close>, \<open>error?.code\<close> and \<open>error?.message\<close>. A thrown
  \<open>null\<close> or \<open>undefined\<close> reads as \<open>Undefined\<close> in every field. The message of an
  \<open>Error\<close> is a string; a value with no message has \<open>None\<close>.
\<close>

record js_error =
  status :: jsvalue
  response_status :: jsvalue
  code :: jsvalue
  message :: "jsstring option"

text \<open>\<open>new Error(m)\<close>.\<close>

definition Error :: "jsstring \<Rightarrow> js_error" where
  "Error m = \<lparr>status = Undefined, response_status = Undefined, code = Undefined,
     message = Some m\<rparr>"

section \<open>The retry policy: \<open>retryWithBackoff\<close> of src/lib/geminiService.ts\<close>

text \<open>
  \<^verbatim>\<open>const status = error?.status || error?.response?.status || error?.code;\<close>
  \<^verbatim>\<open>const isTransient = status === 503 || status === 429 || error?.message?.includes('overloaded');\<close>
\<close>

definition error_status :: "js_error \<Rightarrow> jsvalue" where
  "error_status error = or_else (or_else (status error) (response_status error)) (code error)"

definition isTransient :: "js_error \<Rightarrow> bool" where
  "isTransient error =
     (error_status error = Number 503 \<or> error_status error = Number 429 \<or>
      (case message error of None \<Rightarrow> False | Some m \<Rightarrow> str_includes m (utf16 ''overloaded'')))"

text \<open>
  An asynchronous operation \<open>fn: () => Promise<T>\<close> acts on the world outside the
  program (state \<open>'s\<close>): called in a state, it resolves with a value (\<open>Inr\<close>) or rejects
  with a thrown value (\<open>Inl\<close>), and leaves a new state. \<open>sleep d\<close> is what the world does
  while the program waits \<open>d\<close> milliseconds on \<open>setTimeout\<close>.

  \<open>retries\<close> is a natural number: the function is private to its module and each of its
  call sites passes the default \<open>3\<close>. \<open>delay\<close> is a number of milliseconds, doubled exactly
  (a double doubles exactly below \<open>2^1024\<close>).

  Besides the outcome and the state, the model returns the policy's own trace: one
  \<open>Attempt\<close> for each call of \<open>fn\<close> and one \<open>Wait d\<close> for each timed wait, in order.
\<close>

datatype retry_event = Attempt | Wait nat

type_synonym ('s, 'a) operation = "'s \<Rightarrow> (js_error + 'a) \<times> 's"

fun retryWithBackoff ::
  "(nat \<Rightarrow> 's \<Rightarrow> 's) \<Rightarrow> ('s, 'a) operation \<Rightarrow> nat \<Rightarrow> nat \<Rightarrow> 's
     \<Rightarrow> ((js_error + 'a) \<times> 's) \<times> retry_event list" where
  "retryWithBackoff sleep fn retries delay s =
     (case fn s of
        (Inr v, s1) \<Rightarrow> ((Inr v, s1), [Attempt])
      | (Inl error, s1) \<Rightarrow>
          if retries = 0 \<or> \<not> isTransient error then ((Inl error, s1), [Attempt])
          else (case retryWithBackoff sleep fn (retries - 1) (delay * 2) (sleep delay s1) of
                  (r, trace) \<Rightarrow> (r, Attempt # Wait delay # trace)))"

declare retryWithBackoff.simps [simp del]

text \<open>The number of calls of the operation, and the waits in order, read off a trace.\<close>

fun attempts :: "retry_event list \<Rightarrow> nat" where
  "attempts [] = 0"
| "attempts (Attempt # t) = Suc (attempts t)"
| "attempts (Wait d # t) = attempts t"

fun delays :: "retry_event list \<Rightarrow> nat list" where
  "delays [] = []"
| "delays (Attempt # t) = delays t"
| "delays (Wait d # t) = d # delays t"

section \<open>Strings and numbers of the platform\<close>

text \<open>String literals as values, and the line feed of \<open>'\n'\<close>.\<close>

abbreviation lit :: "string \<Rightarrow> jsvalue" where
  "lit s \<equiv> String (utf16 s)"

definition newline :: jsstring where
  "newline = [0x0A]"

text \<open>An optional string read as a value: an absent one reads \<open>undefined\<close>.\<close>

fun opt_string :: "jsstring option \<Rightarrow> jsvalue" where
  "opt_string None = Undefined"
| "opt_string (Some s) = String s"

text \<open>
  A non-negative integer in a template literal or in \<open>String(n)\<close>: its decimal digits.
\<close>

fun Number_toString :: "nat \<Rightarrow> jsstring" where
  "Number_toString n =
     (if n < 10 then [of_nat (48 + n)]
      else Number_toString (n div 10) @ [of_nat (48 + n mod 10)])"

declare Number_toString.simps [simp del]

text \<open>\<open>parts.join(sep)\<close>.\<close>

fun join :: "'a list \<Rightarrow> 'a list list \<Rightarrow> 'a list" where
  "join sep [] = []"
| "join sep [x] = x"
| "join sep (x # y # ys) = x @ sep @ join sep (y # ys)"

text \<open>
  The class \<open>\s\<close> of a regular expression: the white space and line terminators of
  ECMAScript.
\<close>

definition regex_space :: "16 word \<Rightarrow> bool" where
  "regex_space c =
     (c \<in> {0x09, 0x0A, 0x0B, 0x0C, 0x0D, 0x20, 0xA0, 0x1680, 0x2028, 0x2029, 0x202F,
            0x205F, 0x3000, 0xFEFF}
      \<or> (0x2000 \<le> c \<and> c \<le> 0x200A))"

text \<open>
  \<open>s.replace(/C+/g, r)\<close> for a character class \<open>C\<close>: every maximal run of characters of
  the class becomes one \<open>r\<close>.
\<close>

function replace_runs :: "('a \<Rightarrow> bool) \<Rightarrow> 'a list \<Rightarrow> 'a list \<Rightarrow> 'a list" where
  "replace_runs C r [] = []"
| "replace_runs C r (c # s) =
     (if C c then r @ replace_runs C r (dropWhile C s) else c # replace_runs C r s)"
  by pat_completeness auto
termination
  by (relation "measure (\<lambda>(C, r, s). length s)")
     (auto simp: length_dropWhile_le less_Suc_eq_le)


section \<open>URI encoding\<close>

text \<open>
  \<open>encodeURIComponent\<close>, after the operation Encode of ECMA-262: a code unit of the
  unreserved set is kept; any other code point is written as the \<open>%XX\<close> escapes of its
  UTF-8 octets; an unpaired surrogate throws a \<open>URIError\<close> (whose message is
  \<open>URI malformed\<close> on V8).
\<close>

definition uri_unreserved :: "16 word \<Rightarrow> bool" where
  "uri_unreserved c =
     ((0x41 \<le> c \<and> c \<le> 0x5A) \<or> (0x61 \<le> c \<and> c \<le> 0x7A) \<or> (0x30 \<le> c \<and> c \<le> 0x39)
      \<or> c \<in> {0x2D, 0x5F, 0x2E, 0x21, 0x7E, 0x2A, 0x27, 0x28, 0x29})"

definition leading_surrogate :: "16 word \<Rightarrow> bool" where
  "leading_surrogate c = (0xD800 \<le> c \<and> c \<le> 0xDBFF)"

definition trailing_surrogate :: "16 word \<Rightarrow> bool" where
  "trailing_surrogate c = (0xDC00 \<le> c \<and> c \<le> 0xDFFF)"

definition surrogate_pair_code_point :: "16 word \<Rightarrow> 16 word \<Rightarrow> nat" where
  "surrogate_pair_code_point lead trail =
     (unat lead - 0xD800) * 0x400 + (unat trail - 0xDC00) + 0x10000"

definition utf8_octets :: "nat \<Rightarrow> nat list" where
  "utf8_octets cp =
     (if cp < 0x80 then [cp]
      else if cp < 0x800 then [0xC0 + cp div 0x40, 0x80 + cp mod 0x40]
      else if cp < 0x10000 then
        [0xE0 + cp div 0x1000, 0x80 + cp div 0x40 mod 0x40, 0x80 + cp mod 0x40]
      else
        [0xF0 + cp div 0x40000, 0x80 + cp div 0x1000 mod 0x40, 0x80 + cp div 0x40 mod 0x40,
         0x80 + cp mod 0x40])"

definition hex_digit :: "nat \<Rightarrow> 16 word" where
  "hex_digit d = (if d < 10 then of_nat (48 + d) else of_nat (55 + d))"

definition percent_escape :: "nat \<Rightarrow> jsstring" where
  "percent_escape octet = [0x25, hex_digit (octet div 16), hex_digit (octet mod 16)]"

definition percent_escapes :: "nat \<Rightarrow> jsstring" where
  "percent_escapes cp = concat (map percent_escape (utf8_octets cp))"

definition URIError :: js_error where
  "URIError = Error (utf16 ''URI malformed'')"

fun encodeURIComponent :: "jsstring \<Rightarrow> js_error + jsstring" where
  "encodeURIComponent [] = Inr []"
| "encodeURIComponent (c # s) =
     (if uri_unreserved c then map_sum (\<lambda>e. e) ((#) c) (encodeURIComponent s)
      else if trailing_surrogate c then Inl URIError
      else if leading_surrogate c then
        (case s of
           [] \<Rightarrow> Inl URIError
         | d # s' \<Rightarrow>
             if trailing_surrogate d
             then map_sum (\<lambda>e. e) ((@) (percent_escapes (surrogate_pair_code_point c d)))
                    (encodeURIComponent s')
             else Inl URIError)
      else map_sum (\<lambda>e. e) ((@) (percent_escapes (unat c))) (encodeURIComponent s))"

text \<open>\<open>s.isWellFormed()\<close>: no surrogate of \<open>s\<close> is unpaired.\<close>

fun isWellFormed :: "jsstring \<Rightarrow> bool" where
  "isWellFormed [] = True"
| "isWellFormed (c # s) =
     (if trailing_surrogate c then False
      else if leading_surrogate c then
        (case s of [] \<Rightarrow> False | d # s' \<Rightarrow> trailing_surrogate d \<and> isWellFormed s')
      else isWellFormed s)"

section \<open>Posts\<close>

text \<open>
  The declaration of \<open>BlogPost\<close> (the module \<open>types\<close>) is not among the sources. The
  fields are those the sources read and write; a field is optional where the sources
  assign it a value that may be \<open>undefined\<close> or guard its use.
\<close>

record AeoQuestion =
  question :: jsstring
  answer :: jsstring

text \<open>
  A topic as \<open>generateTopics\<close> requests it of the provider: every field is required by
  the response schema.
\<close>

record GeneratedTopic =
  topic :: jsstring
  relevance :: jsstring
  content :: jsstring
  excerpt :: jsstring
  "keywords" :: "jsstring list"
  category :: jsstring
  readTime :: jsstring
  geoTargeting :: jsstring
  aeoQuestions :: "AeoQuestion list"
  seoScore :: real
  coverImage :: jsstring

text \<open>
  \<open>Partial<BlogPost>\<close> as \<open>generateFullPost\<close> returns it: the fields of its response
  schema, each of which may be absent.
\<close>

record PartialPost =
  title :: "jsstring option"
  content :: "jsstring option"
  excerpt :: "jsstring option"
  "keywords" :: "jsstring list option"
  category :: "jsstring option"
  readTime :: "jsstring option"
  geoTargeting :: "jsstring option"
  aeoQuestions :: "AeoQuestion list option"
  seoScore :: "real option"
  commercialIntent :: "bool option"
  isHowTo :: "bool option"
  steps :: "jsstring list option"

datatype PostStatus = draft | published | scheduled

record BlogPost =
  id' :: jsstring
  slug :: jsstring
  title :: jsstring
  excerpt :: jsstring
  content :: jsstring
  "keywords" :: "jsstring list"
  category :: jsstring
  dateCreated :: jsstring
  status :: PostStatus
  readTime :: jsstring
  coverImage :: "jsstring option"
  geoTargeting :: "jsstring option"
  seoScore :: real
  aeoQuestions :: "AeoQuestion list option"
  commercialIntent :: "bool option"
  isHowTo :: "bool option"
  steps :: "jsstring list option"
  scheduledDate :: "jsstring option"

section \<open>The platform\<close>

text \<open>
  Functions of the platform that the model does not define are taken as parameters:
  \<open>String.prototype.toLowerCase\<close> (the case mapping of Unicode);
  \<open>JSON.stringify(value, null, indent)\<close> (\<open>None\<close> where JavaScript gives \<open>undefined\<close>;
  indent \<open>0\<close> stands for the call with one argument); \<open>JSON.parse(v)\<close>, which converts
  \<open>v\<close> to a string first (\<open>Inl\<close> the thrown \<open>SyntaxError\<close>);
  \<open>new Date(t).toISOString()\<close> and \<open>new Date(t).toLocaleString()\<close> of a time \<open>t\<close> in
  milliseconds; whether \<open>new URL(s)\<close> accepts \<open>s\<close>; and \<open>new Date(v)\<close> of a value, as the
  database driver writes it and hands it back.

  \<open>JSON_parse_topics\<close> and \<open>JSON_parse_post\<close> are \<open>JSON.parse(text)\<close> read at the type
  of the source's cast (\<open>as GeneratedTopic[]\<close>) or return type (\<open>Partial<BlogPost>\<close>): the
  provider is sent the schema of that type with the request, and the source trusts the
  text to conform to it.
\<close>

record platform =
  toLowerCase :: "jsstring \<Rightarrow> jsstring"
  JSON_stringify :: "jsvalue \<Rightarrow> nat \<Rightarrow> jsstring option"
  JSON_parse :: "jsvalue \<Rightarrow> js_error + jsvalue"
  JSON_parse_topics :: "jsstring \<Rightarrow> js_error + GeneratedTopic list"
  JSON_parse_post :: "jsstring \<Rightarrow> js_error + PartialPost"
  toISOString :: "nat \<Rightarrow> jsstring"
  toLocaleString :: "nat \<Rightarrow> jsstring"
  URL_canParse :: "jsstring \<Rightarrow> bool"
  new_Date :: "jsvalue \<Rightarrow> jsvalue"

section \<open>The structured-data aggregator: src/lib/schemaGenerator.ts\<close>

text \<open>
  A fragment is a JavaScript object: its properties in insertion order. \<open>now\<close> is the
  value of \<open>new Date().toISOString()\<close> at the call.
\<close>

definition generateBlogPostingSchema :: "jsstring \<Rightarrow> BlogPost \<Rightarrow> jsvalue" where
  "generateBlogPostingSchema now post = Object
     [(utf16 ''@type'', lit ''BlogPosting''),
      (utf16 ''headline'', String (title post)),
      (utf16 ''description'', String (excerpt post)),
      (utf16 ''image'', opt_string (coverImage post)),
      (utf16 ''author'', Object
         [(utf16 ''@type'', lit ''Person''),
          (utf16 ''name'', lit ''AutoBlog AI''),
          (utf16 ''jobTitle'', lit ''AI Content Creator''),
          (utf16 ''worksFor'', Object
             [(utf16 ''@type'', lit ''Organization''),
              (utf16 ''name'', lit ''AutoBlog'')])]),
      (utf16 ''publisher'', Object
         [(utf16 ''@type'', lit ''Organization''),
          (utf16 ''name'', lit ''AutoBlog''),
          (utf16 ''logo'', Object
             [(utf16 ''@type'', lit ''ImageObject''),
              (utf16 ''url'', lit ''https://smmsurge.com/logo.png'')])]),
      (utf16 ''datePublished'', String (dateCreated post)),
      (utf16 ''dateModified'', String now),
      (utf16 ''mainEntityOfPage'', Object
         [(utf16 ''@type'', lit ''WebPage''),
          (utf16 ''@id'', String (utf16 ''https://smmsurge.com/blog/'' @ slug post))])]"

definition generateOrganizationSchema :: jsvalue where
  "generateOrganizationSchema = Object
     [(utf16 ''@type'', lit ''Organization''),
      (utf16 ''name'', lit ''AutoBlog AI''),
      (utf16 ''url'', lit ''https://smmsurge.com''),
      (utf16 ''logo'', lit ''https://smmsurge.com/logo.png''),
      (utf16 ''sameAs'', Array
         [lit ''https://twitter.com/autoblogai'',
          lit ''https://facebook.com/autoblogai'',
          lit ''https://linkedin.com/company/autoblogai'']),
      (utf16 ''contactPoint'', Object
         [(utf16 ''@type'', lit ''ContactPoint''),
          (utf16 ''telephone'', lit ''+1-000-000-0000''),
          (utf16 ''contactType'', lit ''customer service'')])]"

definition ListItem :: "nat \<Rightarrow> jsvalue \<Rightarrow> jsvalue \<Rightarrow> jsvalue" where
  "ListItem position name item = Object
     [(utf16 ''@type'', lit ''ListItem''),
      (utf16 ''position'', Number (real position)),
      (utf16 ''name'', name),
      (utf16 ''item'', item)]"

definition generateBreadcrumbSchema :: "platform \<Rightarrow> BlogPost \<Rightarrow> jsvalue" where
  "generateBreadcrumbSchema pf post = Object
     [(utf16 ''@type'', lit ''BreadcrumbList''),
      (utf16 ''itemListElement'', Array
         [ListItem 1 (lit ''Home'') (lit ''https://smmsurge.com''),
          ListItem 2 (lit ''Blog'') (lit ''https://smmsurge.com/blog''),
          ListItem 3 (String (category post))
            (String (utf16 ''https://smmsurge.com/blog/category/'' @
               replace_runs regex_space (utf16 ''-'') (toLowerCase pf (category post)))),
          ListItem 4 (String (title post))
            (String (utf16 ''https://smmsurge.com/blog/'' @ slug post))])]"

definition generateFAQSchema :: "BlogPost \<Rightarrow> jsvalue" where
  "generateFAQSchema post =
     (case aeoQuestions post of
        None \<Rightarrow> Null
      | Some qs \<Rightarrow>
          if length qs = 0 then Null
          else Object
            [(utf16 ''@type'', lit ''FAQPage''),
             (utf16 ''mainEntity'', Array (map (\<lambda>q. Object
                [(utf16 ''@type'', lit ''Question''),
                 (utf16 ''name'', String (question q)),
                 (utf16 ''acceptedAnswer'', Object
                    [(utf16 ''@type'', lit ''Answer''),
                     (utf16 ''text'', String (answer q))])]) qs))])"

definition generateHowToSchema :: "BlogPost \<Rightarrow> jsvalue" where
  "generateHowToSchema post =
     (if isHowTo post \<noteq> Some True then Null
      else case steps post of
        None \<Rightarrow> Null
      | Some ss \<Rightarrow>
          if length ss < 3 then Null
          else Object
            [(utf16 ''@type'', lit ''HowTo''),
             (utf16 ''name'', String (title post)),
             (utf16 ''description'', String (excerpt post)),
             (utf16 ''step'', Array (map (\<lambda>(idx, step). Object
                [(utf16 ''@type'', lit ''HowToStep''),
                 (utf16 ''position'', Number (real (idx + 1))),
                 (utf16 ''text'', String step),
                 (utf16 ''name'', String (utf16 ''Step '' @ Number_toString (idx + 1)))])
                (enumerate 0 ss)))])"

definition generateServiceSchema :: "BlogPost \<Rightarrow> jsvalue" where
  "generateServiceSchema post =
     (if commercialIntent post \<noteq> Some True then Null
      else Object
        [(utf16 ''@type'', lit ''Service''),
         (utf16 ''name'', String (title post)),
         (utf16 ''provider'', Object
            [(utf16 ''@type'', lit ''Organization''),
             (utf16 ''name'', lit ''AutoBlog AI'')]),
         (utf16 ''areaServed'', or_else (opt_string (geoTargeting post)) (lit ''Global'')),
         (utf16 ''hasOfferCatalog'', Object
            [(utf16 ''@type'', lit ''OfferCatalog''),
             (utf16 ''name'', lit ''Social Media Services''),
             (utf16 ''itemListElement'', Array
                [Object
                   [(utf16 ''@type'', lit ''Offer''),
                    (utf16 ''itemOffered'', Object
                       [(utf16 ''@type'', lit ''Service''),
                        (utf16 ''name'', String (title post))]),
                    (utf16 ''price'', lit ''1.00''),
                    (utf16 ''priceCurrency'', lit ''USD'')]])])])"

text \<open>
  \<^verbatim>\<open>{ "@context": "https://schema.org", ...fragment }\<close>: the context first, then the own
  properties of the fragment (no fragment has a context of its own).
\<close>

fun with_context :: "jsvalue \<Rightarrow> jsvalue" where
  "with_context (Object props) =
     Object ((utf16 ''@context'', lit ''https://schema.org'') # props)"
| "with_context v = Object [(utf16 ''@context'', lit ''https://schema.org'')]"

definition aggregateSchemas :: "platform \<Rightarrow> jsstring \<Rightarrow> BlogPost \<Rightarrow> jsvalue list" where
  "aggregateSchemas pf now post =
     (let schemas =
            [with_context (generateBlogPostingSchema now post),
             with_context generateOrganizationSchema,
             with_context (generateBreadcrumbSchema pf post)];
          faq = generateFAQSchema post;
          schemas = (if truthy faq then schemas @ [with_context faq] else schemas);
          howTo = generateHowToSchema post;
          schemas = (if truthy howTo then schemas @ [with_context howTo] else schemas);
          service = generateServiceSchema post;
          schemas = (if truthy service then schemas @ [with_context service] else schemas)
      in schemas)"

text \<open>A value in a template literal: \<open>undefined\<close> prints as the word.\<close>

fun template_string :: "jsstring option \<Rightarrow> jsstring" where
  "template_string None = utf16 ''undefined''"
| "template_string (Some s) = s"

definition getCombinedSchemaHtml :: "platform \<Rightarrow> jsstring \<Rightarrow> BlogPost \<Rightarrow> jsstring" where
  "getCombinedSchemaHtml pf now post =
     (let schemas = aggregateSchemas pf now post
      in join newline (map (\<lambda>schema.
           utf16 ''<script type='' @ [0x22] @ utf16 ''application/ld+json'' @ [0x22] @ utf16 ''>'' @
           template_string (JSON_stringify pf schema 2) @ utf16 ''</script>'') schemas))"

text \<open>Reading fragments: \<open>fragment["@type"]\<close>, and \<open>delete fragment[key]\<close>.\<close>

fun property :: "jsstring \<Rightarrow> jsvalue \<Rightarrow> jsvalue" where
  "property key (Object props) = (case map_of props key of None \<Rightarrow> Undefined | Some v \<Rightarrow> v)"
| "property key v = Undefined"

definition schema_type :: "jsvalue \<Rightarrow> jsvalue" where
  "schema_type fragment = property (utf16 ''@type'') fragment"

fun delete_property :: "jsstring \<Rightarrow> jsvalue \<Rightarrow> jsvalue" where
  "delete_property key (Object props) = Object (filter (\<lambda>(k, v). k \<noteq> key) props)"
| "delete_property key v = v"

section \<open>The world outside the program\<close>

text \<open>
  What the program asks of the generation provider. The prompt, the response schema and
  the sampling temperature of a request are fixed by the generation task and its
  arguments, which stand for the request here.
\<close>

datatype request =
    TopicsRequest jsstring "jsstring option" nat
  | FullPostRequest jsstring jsstring "jsstring option"

record GenerateContentResponse =
  "text" :: "jsstring option"

text \<open>
  What \<open>fetch\<close> of the generated image gives: it rejects (network error, or the abort
  after 15 seconds), or it resolves with a response, of which the program reads \<open>ok\<close>,
  \<open>status\<close> and \<open>arrayBuffer()\<close> (which rejects, or resolves with so many bytes).
\<close>

datatype image_fetch =
    ImageFetchRejects js_error
  | ImageResponse bool nat "js_error + nat"

text \<open>
  What the upload gives: \<open>fetch\<close> rejects, or resolves with a response, of which the
  program reads \<open>ok\<close>, \<open>status\<close>, \<open>text()\<close> and \<open>json()\<close>. Of the parsed body it reads
  whether \<open>success\<close> is truthy, \<open>url\<close>, and \<open>error\<close>.
\<close>

datatype upload_data = UploadData bool "jsstring option" "jsstring option"

datatype upload_fetch =
    UploadFetchRejects js_error
  | UploadResponse bool nat "js_error + jsstring" "js_error + upload_data"

text \<open>
  The world: the clock, the random number generator, the generation provider, the image
  provider, the storage service and the environment variables. The \<open>k\<close>-th reading of
  the clock gives \<open>time k\<close> (milliseconds since the epoch), the \<open>k\<close>-th call of
  \<open>Math.random()\<close> gives \<open>random k\<close> (a number from 0 up to but not including 1), and the
  \<open>k\<close>-th call of a service gives what its field says for the request and \<open>k\<close>. The
  counters say how many readings and calls there have been; \<open>waits\<close> lists the timed
  waits (\<open>setTimeout\<close>) so far.
\<close>

record world =
  time :: "nat \<Rightarrow> nat"
  clock_reads :: nat
  random :: "nat \<Rightarrow> real"
  random_calls :: nat
  provider :: "request \<Rightarrow> nat \<Rightarrow> js_error + GenerateContentResponse"
  provider_calls :: nat
  image_provider :: "jsstring \<Rightarrow> nat \<Rightarrow> image_fetch"
  image_fetches :: nat
  storage :: "jsstring \<times> jsstring \<times> jsstring \<Rightarrow> nat \<Rightarrow> upload_fetch"
  uploads :: nat
  REMOTE_STORAGE_API_KEY :: "jsstring option"
  REMOTE_STORAGE_API_URL :: "jsstring option"
  waits :: "nat list"

definition Date_now :: "world \<Rightarrow> nat \<times> world" where
  "Date_now w = (time w (clock_reads w), w\<lparr>clock_reads := Suc (clock_reads w)\<rparr>)"

text \<open>
  \<open>Math.floor(Math.random() * n)\<close>, with the exact product. The code floors the product
  rounded to a double, which is the next integer when the exact product lies less than a
  rounding error below it; the number drawn enters the seeds, the lock and the index of
  the picked topic only.
\<close>

definition random_below :: "nat \<Rightarrow> world \<Rightarrow> nat \<times> world" where
  "random_below n w =
     (nat \<lfloor>random w (random_calls w) * real n\<rfloor>, w\<lparr>random_calls := Suc (random_calls w)\<rparr>)"

text \<open>\<open>await new Promise(resolve => setTimeout(resolve, d))\<close>.\<close>

definition sleep :: "nat \<Rightarrow> world \<Rightarrow> world" where
  "sleep d w = w\<lparr>waits := waits w @ [d]\<rparr>"

text \<open>\<open>ai.models.generateContent(request)\<close>.\<close>

definition generateContent :: "request \<Rightarrow> (world, GenerateContentResponse) operation" where
  "generateContent req w =
     (provider w req (provider_calls w), w\<lparr>provider_calls := Suc (provider_calls w)\<rparr>)"

section \<open>The generation client: src/lib/geminiService.ts\<close>

text \<open>
  The map over the parsed topics: each gets a cover image seeded by the first ten
  characters of its encoded title and a random integer below 1000. An exception of
  \<open>encodeURIComponent\<close> ends the map.
\<close>

fun attach_cover_images ::
  "GeneratedTopic list \<Rightarrow> world \<Rightarrow> (js_error + GeneratedTopic list) \<times> world" where
  "attach_cover_images [] w = (Inr [], w)"
| "attach_cover_images (t # ts) w =
     (case encodeURIComponent (topic t) of
        Inl e \<Rightarrow> (Inl e, w)
      | Inr encoded \<Rightarrow>
          (case random_below 1000 w of
             (n, w1) \<Rightarrow>
               (case attach_cover_images ts w1 of
                  (Inl e, w2) \<Rightarrow> (Inl e, w2)
                | (Inr ts', w2) \<Rightarrow>
                    (Inr (t\<lparr>GeneratedTopic.coverImage :=
                             utf16 ''https://picsum.photos/seed/'' @ take 10 encoded @
                             Number_toString n @ utf16 ''/800/400''\<rparr> # ts'), w2))))"

text \<open>The error that the \<open>catch\<close> of \<open>generateTopics\<close> throws.\<close>

definition topics_failure :: js_error where
  "topics_failure = Error (utf16
     ''Failed to generate topics. Please check your API key or try again later.'')"

text \<open>
  \<open>generateTopics\<close>: the body of its \<open>try\<close> first, then the function, whose \<open>catch\<close>
  replaces whatever was thrown by a new error.
\<close>

definition generateTopics_try ::
  "platform \<Rightarrow> jsstring \<Rightarrow> jsstring option \<Rightarrow> nat \<Rightarrow> world
     \<Rightarrow> (js_error + GeneratedTopic list) \<times> world" where
  "generateTopics_try pf niche trainingContext count w =
     (case fst (retryWithBackoff sleep
                  (generateContent (TopicsRequest niche trainingContext count)) 3 2000 w) of
        (Inl e, w1) \<Rightarrow> (Inl e, w1)
      | (Inr response, w1) \<Rightarrow>
          (case text response of
             None \<Rightarrow> (Inr [], w1)
           | Some txt \<Rightarrow>
               if txt = [] then (Inr [], w1)
               else
                 (case JSON_parse_topics pf txt of
                    Inl e \<Rightarrow> (Inl e, w1)
                  | Inr topics \<Rightarrow> attach_cover_images topics w1)))"

definition generateTopics ::
  "platform \<Rightarrow> jsstring \<Rightarrow> jsstring option \<Rightarrow> nat \<Rightarrow> world
     \<Rightarrow> (js_error + GeneratedTopic list) \<times> world" where
  "generateTopics pf niche trainingContext count w =
     (case generateTopics_try pf niche trainingContext count w of
        (Inl e, w1) \<Rightarrow> (Inl topics_failure, w1)
      | (Inr topics, w1) \<Rightarrow> (Inr topics, w1))"

text \<open>\<open>generateFullPost\<close>, likewise, with the error of its \<open>catch\<close>.\<close>

definition post_failure :: js_error where
  "post_failure = Error (utf16
     ''Failed to generate blog post. The AI model is currently overloaded. Please try again in a few moments.'')"

definition generateFullPost_try ::
  "platform \<Rightarrow> jsstring \<Rightarrow> jsstring \<Rightarrow> jsstring option \<Rightarrow> world
     \<Rightarrow> (js_error + PartialPost) \<times> world" where
  "generateFullPost_try pf subject tone trainingContext w =
     (case fst (retryWithBackoff sleep
                  (generateContent (FullPostRequest subject tone trainingContext)) 3 2000 w) of
        (Inl e, w1) \<Rightarrow> (Inl e, w1)
      | (Inr response, w1) \<Rightarrow>
          (case text response of
             None \<Rightarrow> (Inl (Error (utf16 ''No content generated'')), w1)
           | Some txt \<Rightarrow>
               if txt = [] then (Inl (Error (utf16 ''No content generated'')), w1)
               else (JSON_parse_post pf txt, w1)))"

definition generateFullPost ::
  "platform \<Rightarrow> jsstring \<Rightarrow> jsstring \<Rightarrow> jsstring option \<Rightarrow> world
     \<Rightarrow> (js_error + PartialPost) \<times> world" where
  "generateFullPost pf subject tone trainingContext w =
     (case generateFullPost_try pf subject tone trainingContext w of
        (Inl e, w1) \<Rightarrow> (Inl post_failure, w1)
      | (Inr parsed, w1) \<Rightarrow> (Inr parsed, w1))"

definition generateCoverImage ::
  "jsstring \<Rightarrow> bool \<Rightarrow> world \<Rightarrow> (js_error + jsstring) \<times> world" where
  "generateCoverImage prompt isRawPrompt w =
     (case (if isRawPrompt then encodeURIComponent (take 200 prompt)
            else encodeURIComponent
              (utf16 ''High-quality cinematic blog header image for: '' @ take 100 prompt @
               utf16 '', vivid colors, detailed, professional photography'')) of
        Inl e \<Rightarrow> (Inl e, w)
      | Inr finalPrompt \<Rightarrow>
          (case random_below 1000000 w of
             (seed, w1) \<Rightarrow>
               (Inr (utf16 ''https://image.pollinations.ai/prompt/'' @ finalPrompt @
                     utf16 ''?width=1000&height=500&nologo=true&seed='' @ Number_toString seed),
                w1)))"

text \<open>
  The slug of a title:
  \<^verbatim>\<open>.toLowerCase().replace(/[^\w\s-]/g, '').replace(/[\s_-]+/g, '-').replace(/^-+|-+$/g, '')\<close>
\<close>

definition regex_word :: "16 word \<Rightarrow> bool" where
  "regex_word c =
     ((0x41 \<le> c \<and> c \<le> 0x5A) \<or> (0x61 \<le> c \<and> c \<le> 0x7A) \<or> (0x30 \<le> c \<and> c \<le> 0x39)
      \<or> c = 0x5F)"

definition slugify :: "platform \<Rightarrow> jsstring \<Rightarrow> jsstring" where
  "slugify pf s =
     (let s1 = toLowerCase pf s;
          s2 = filter (\<lambda>c. regex_word c \<or> regex_space c \<or> c = 0x2D) s1;
          s3 = replace_runs (\<lambda>c. regex_space c \<or> c = 0x5F \<or> c = 0x2D) (utf16 ''-'') s2
      in rev (dropWhile (\<lambda>c. c = 0x2D) (rev (dropWhile (\<lambda>c. c = 0x2D) s3))))"

text \<open>\<open>a || b\<close> where \<open>a\<close> is an optional string, an optional number, an optional array.\<close>

fun or_string :: "jsstring option \<Rightarrow> jsstring \<Rightarrow> jsstring" where
  "or_string None b = b"
| "or_string (Some a) b = (if a = [] then b else a)"

fun or_number :: "real option \<Rightarrow> real \<Rightarrow> real" where
  "or_number None b = b"
| "or_number (Some a) b = (if a = 0 then b else a)"

fun or_array :: "'a list option \<Rightarrow> 'a list \<Rightarrow> 'a list" where
  "or_array None b = b"
| "or_array (Some a) b = a"

text \<open>
  The image step of \<open>generateAndPublishAutoPost\<close>: \<open>generateCoverImage\<close> in a
  \<open>try\<close>, and the placeholder seeded by the clock in its \<open>catch\<close>.
\<close>

definition autoPostCoverImage :: "jsstring \<Rightarrow> world \<Rightarrow> jsstring \<times> world" where
  "autoPostCoverImage subject w =
     (case generateCoverImage subject False w of
        (Inr img, w1) \<Rightarrow> (img, w1)
      | (Inl e, w1) \<Rightarrow>
          (case Date_now w1 of
             (t, w2) \<Rightarrow> (utf16 ''https://picsum.photos/800/400?random='' @ Number_toString t, w2)))"

text \<open>
  \<open>topics[i]\<close> is \<open>undefined\<close> for an index out of range, and reading its \<open>topic\<close>
  throws a \<open>TypeError\<close>.
\<close>

definition TypeError :: js_error where
  "TypeError = Error (utf16 ''Cannot read properties of undefined (reading 'topic')'')"

text \<open>
  Step 4 of \<open>generateAndPublishAutoPost\<close>, the object \<open>basePost\<close>: \<open>generated\<close> is the
  result of \<open>generateFullPost\<close>, \<open>t_id\<close> and \<open>t_created\<close> are the readings of the clock for
  \<open>id\<close> and \<open>dateCreated\<close>.
\<close>

definition basePost ::
  "platform \<Rightarrow> GeneratedTopic \<Rightarrow> PartialPost \<Rightarrow> jsstring \<Rightarrow> nat \<Rightarrow> nat \<Rightarrow> BlogPost" where
  "basePost pf randomTopic generated img t_id t_created = \<lparr>
     id' = Number_toString t_id,
     slug = slugify pf (or_string (PartialPost.title generated) (topic randomTopic)),
     title = or_string (PartialPost.title generated) (topic randomTopic),
     excerpt = or_string (PartialPost.excerpt generated) [],
     content = or_string (PartialPost.content generated) [],
     keywords = or_array (PartialPost.keywords generated) [],
     category = or_string (PartialPost.category generated) (utf16 ''Auto-Generated''),
     dateCreated = toLocaleString pf t_created,
     status = published,
     readTime = or_string (PartialPost.readTime generated) (utf16 ''3 min read''),
     coverImage = Some img,
     geoTargeting = Some (or_string (PartialPost.geoTargeting generated) (utf16 ''Global'')),
     seoScore = or_number (PartialPost.seoScore generated) 85,
     aeoQuestions = Some (or_array (PartialPost.aeoQuestions generated) []),
     commercialIntent = PartialPost.commercialIntent generated,
     isHowTo = PartialPost.isHowTo generated,
     steps = PartialPost.steps generated,
     scheduledDate = None\<rparr>"

text \<open>Steps 3 to 5, once the topic is picked and its post generated.\<close>

definition publishGenerated ::
  "platform \<Rightarrow> GeneratedTopic \<Rightarrow> PartialPost \<Rightarrow> world \<Rightarrow> BlogPost \<times> world" where
  "publishGenerated pf randomTopic generated w =
     (case autoPostCoverImage (topic randomTopic) w of
        (img, w1) \<Rightarrow>
          (case Date_now w1 of
             (t_id, w2) \<Rightarrow>
               (case Date_now w2 of
                  (t_created, w3) \<Rightarrow>
                    (case Date_now w3 of
                       (t_modified, w4) \<Rightarrow>
                         (let post = basePost pf randomTopic generated img t_id t_created;
                              schemaHtml = getCombinedSchemaHtml pf (toISOString pf t_modified) post
                          in (post\<lparr>content := content post @ newline @ newline @ schemaHtml\<rparr>,
                              w4))))))"

definition generateAndPublishAutoPost ::
  "platform \<Rightarrow> jsstring \<Rightarrow> world \<Rightarrow> (js_error + BlogPost) \<times> world" where
  "generateAndPublishAutoPost pf niche w =
     (case generateTopics pf niche None 3 w of
        (Inl e, w1) \<Rightarrow> (Inl e, w1)
      | (Inr topics, w1) \<Rightarrow>
          if length topics = 0 then (Inl (Error (utf16 ''Failed to auto-generate topics'')), w1)
          else
            (case random_below (length topics) w1 of
               (i, w2) \<Rightarrow>
                 if \<not> i < length topics then (Inl TypeError, w2)
                 else
                   (case generateFullPost pf (topic (topics ! i))
                           (utf16 ''Professional & Engaging'') None w2 of
                      (Inl e, w3) \<Rightarrow> (Inl e, w3)
                    | (Inr generated, w3) \<Rightarrow>
                        (case publishGenerated pf (topics ! i) generated w3 of
                           (post, w4) \<Rightarrow> (Inr post, w4)))))"

section \<open>The image pipeline: \<open>generateAndStoreCoverImage\<close> of src/app/actions/gemini.ts\<close>

text \<open>The object the function returns: \<open>{ success, url?, error? }\<close>.\<close>

record store_result =
  success :: bool
  url :: "jsstring option"
  error :: "jsstring option"

text \<open>\<open>fetch(imageUrl, ...)\<close> and the upload \<open>fetch(uploadUrl, { method: 'POST', ... })\<close>.\<close>

definition fetch_image :: "jsstring \<Rightarrow> world \<Rightarrow> image_fetch \<times> world" where
  "fetch_image imageUrl w =
     (image_provider w imageUrl (image_fetches w), w\<lparr>image_fetches := Suc (image_fetches w)\<rparr>)"

definition fetch_upload :: "jsstring \<times> jsstring \<times> jsstring \<Rightarrow> world \<Rightarrow> upload_fetch \<times> world" where
  "fetch_upload req w = (storage w req (uploads w), w\<lparr>uploads := Suc (uploads w)\<rparr>)"

text \<open>\<open>s.split(sep)\<close> for a separator of one character.\<close>

fun split_on :: "'a \<Rightarrow> 'a list \<Rightarrow> 'a list list" where
  "split_on sep [] = [[]]"
| "split_on sep (c # s) =
     (if c = sep then [] # split_on sep s
      else case split_on sep s of [] \<Rightarrow> [[c]] | x # xs \<Rightarrow> (c # x) # xs)"

text \<open>
  The name of the uploaded file when none is supplied:
  \<^verbatim>\<open>topic.toLowerCase().replace(/[^a-z0-9]+/g, '-').replace(/(^-|-$)/g, '').substring(0, 50)\<close>,
  then the time in seconds.
\<close>

definition lower_alnum :: "16 word \<Rightarrow> bool" where
  "lower_alnum c = ((0x61 \<le> c \<and> c \<le> 0x7A) \<or> (0x30 \<le> c \<and> c \<le> 0x39))"

fun strip_leading_dash :: "jsstring \<Rightarrow> jsstring" where
  "strip_leading_dash [] = []"
| "strip_leading_dash (c # s) = (if c = 0x2D then s else c # s)"

definition strip_dashes :: "jsstring \<Rightarrow> jsstring" where
  "strip_dashes s = rev (strip_leading_dash (rev (strip_leading_dash s)))"

definition upload_filename ::
  "platform \<Rightarrow> jsstring \<Rightarrow> jsstring option \<Rightarrow> world \<Rightarrow> jsstring \<times> world" where
  "upload_filename pf subject customFilename w =
     (case customFilename of
        Some name \<Rightarrow>
          if name \<noteq> [] then (name, w)
          else
            (case Date_now w of
               (t, w1) \<Rightarrow>
                 (or_string (Some (take 50 (strip_dashes
                    (replace_runs (\<lambda>c. \<not> lower_alnum c) (utf16 ''-'') (toLowerCase pf subject)))))
                    (utf16 ''ai-image'') @
                  utf16 ''-'' @ Number_toString (t div 1000) @ utf16 ''.jpg'', w1))
      | None \<Rightarrow>
          (case Date_now w of
             (t, w1) \<Rightarrow>
               (or_string (Some (take 50 (strip_dashes
                  (replace_runs (\<lambda>c. \<not> lower_alnum c) (utf16 ''-'') (toLowerCase pf subject)))))
                  (utf16 ''ai-image'') @
                utf16 ''-'' @ Number_toString (t div 1000) @ utf16 ''.jpg'', w1)))"

text \<open>
  Steps 2 and 3 of an attempt, the upload: \<open>Inr\<close> is the object the attempt returns,
  \<open>Inl\<close> what it throws.
\<close>

definition upload_image ::
  "platform \<Rightarrow> jsstring \<Rightarrow> jsstring option \<Rightarrow> jsstring \<Rightarrow> jsstring \<Rightarrow> world
     \<Rightarrow> (js_error + store_result) \<times> world" where
  "upload_image pf subject customFilename apiKey apiUrl w =
     (case upload_filename pf subject customFilename w of
        (filename, w1) \<Rightarrow>
          if \<not> URL_canParse pf apiUrl then (Inl (Error (utf16 ''Invalid URL'')), w1)
          else
            (case fetch_upload (apiUrl, apiKey, filename) w1 of
               (UploadFetchRejects e, w2) \<Rightarrow> (Inl e, w2)
             | (UploadResponse ok sc body parsed, w2) \<Rightarrow>
                 if \<not> ok then
                   (case body of
                      Inl e \<Rightarrow> (Inl e, w2)
                    | Inr errorText \<Rightarrow>
                        (Inl (Error (utf16 ''Storage upload failed: '' @ Number_toString sc @
                                     utf16 '' '' @ errorText)), w2))
                 else
                   (case parsed of
                      Inl e \<Rightarrow> (Inl e, w2)
                    | Inr (UploadData ok' stored reason) \<Rightarrow>
                        if ok' then (Inr \<lparr>success = True, url = stored, error = None\<rparr>, w2)
                        else (Inl (Error (or_string reason (utf16 ''Upload failed''))), w2))))"

text \<open>
  The body of the \<open>try\<close> of one attempt: the URL of the image, the check of the
  configuration (\<open>!apiKey || !apiUrl\<close>: a variable that is not set, or is empty), the
  fetch of the image, the upload.
\<close>

definition configuration_missing :: store_result where
  "configuration_missing =
     \<lparr>success = False, url = None, error = Some (utf16 ''Remote storage configuration missing'')\<rparr>"

definition fetch_and_upload ::
  "platform \<Rightarrow> jsstring \<Rightarrow> jsstring option \<Rightarrow> jsstring \<Rightarrow> jsstring \<Rightarrow> jsstring \<Rightarrow> world
     \<Rightarrow> (js_error + store_result) \<times> world" where
  "fetch_and_upload pf subject customFilename imageUrl apiKey apiUrl w =
     (case fetch_image imageUrl w of
        (ImageFetchRejects e, w1) \<Rightarrow> (Inl e, w1)
      | (ImageResponse ok sc body, w1) \<Rightarrow>
          if \<not> ok then
            (Inl (Error (utf16 ''AI Provider responded with '' @ Number_toString sc)), w1)
          else
            (case body of
               Inl e \<Rightarrow> (Inl e, w1)
             | Inr byteLength \<Rightarrow>
                 if byteLength < 1000 then
                   (Inl (Error (utf16 ''Received invalid or too small image data'')), w1)
                 else upload_image pf subject customFilename apiKey apiUrl w1))"

definition store_attempt ::
  "platform \<Rightarrow> jsstring \<Rightarrow> bool \<Rightarrow> jsstring option \<Rightarrow> world
     \<Rightarrow> (js_error + store_result) \<times> world" where
  "store_attempt pf subject isRawPrompt customFilename w =
     (case generateCoverImage subject isRawPrompt w of
        (Inl e, w1) \<Rightarrow> (Inl e, w1)
      | (Inr imageUrl, w1) \<Rightarrow>
          (case REMOTE_STORAGE_API_KEY w1 of
             None \<Rightarrow> (Inr configuration_missing, w1)
           | Some apiKey \<Rightarrow>
               (case REMOTE_STORAGE_API_URL w1 of
                  None \<Rightarrow> (Inr configuration_missing, w1)
                | Some apiUrl \<Rightarrow>
                    if apiKey = [] \<or> apiUrl = [] then (Inr configuration_missing, w1)
                    else fetch_and_upload pf subject customFilename imageUrl apiKey apiUrl w1)))"

text \<open>The fallback after the loop, with its own \<open>try\<close> and \<open>catch\<close>.\<close>

definition store_fallback :: "jsstring \<Rightarrow> jsstring option \<Rightarrow> world \<Rightarrow> store_result \<times> world" where
  "store_fallback subject lastError w =
     (case encodeURIComponent (join (utf16 '','') (take 3 (split_on 0x20 subject))) of
        Inl e \<Rightarrow>
          (\<lparr>success = False, url = None,
            error = Some (or_string lastError (utf16 ''Failed to generate or store image''))\<rparr>, w)
      | Inr encoded \<Rightarrow>
          (case random_below 1000 w of
             (n, w1) \<Rightarrow>
               (\<lparr>success = True,
                 url = Some (utf16 ''https://loremflickr.com/800/400/'' @ encoded @
                             utf16 ''?lock='' @ Number_toString n),
                 error = Some (utf16 ''AI generation failed ('' @ template_string lastError @
                               utf16 ''), using relevant fallback.'')\<rparr>, w1)))"

text \<open>
  The loop \<open>for (let i = 0; i <= maxRetries; i++)\<close> with \<open>maxRetries = 2\<close>: an attempt
  that throws leaves its message in \<open>lastError\<close> and, but for the last one, is followed
  by a wait of one second.
\<close>

definition maxRetries :: nat where
  "maxRetries = 2"

function store_loop ::
  "platform \<Rightarrow> jsstring \<Rightarrow> bool \<Rightarrow> jsstring option \<Rightarrow> nat \<Rightarrow> jsstring option \<Rightarrow> world
     \<Rightarrow> store_result \<times> world" where
  "store_loop pf subject isRawPrompt customFilename i lastError w =
     (if i \<le> maxRetries then
        (case store_attempt pf subject isRawPrompt customFilename w of
           (Inr result, w1) \<Rightarrow> (result, w1)
         | (Inl e, w1) \<Rightarrow>
             store_loop pf subject isRawPrompt customFilename (i + 1) (message e)
               (if i < maxRetries then sleep 1000 w1 else w1))
      else store_fallback subject lastError w)"
  by pat_completeness auto
termination
  by (relation "measure (\<lambda>(pf, subject, isRawPrompt, customFilename, i, lastError, w).
        maxRetries + 1 - i)") auto

declare store_loop.simps [simp del]

definition generateAndStoreCoverImage ::
  "platform \<Rightarrow> jsstring \<Rightarrow> bool \<Rightarrow> jsstring option \<Rightarrow> world \<Rightarrow> store_result \<times> world" where
  "generateAndStoreCoverImage pf subject isRawPrompt customFilename w =
     store_loop pf subject isRawPrompt customFilename 0 (Some []) w"

section \<open>The posts API: src/app/api/posts/route.ts\<close>

text \<open>
  A row of the table \<open>posts\<close>, as the database driver hands it over, is an object: its
  columns in order. \<open>row[key] = v\<close> and \<open>{ ...row, key: v }\<close> overwrite the property in
  place, or add it at the end.
\<close>

type_synonym row = "(jsstring \<times> jsvalue) list"

fun update_property :: "jsstring \<Rightarrow> jsvalue \<Rightarrow> row \<Rightarrow> row" where
  "update_property key v [] = [(key, v)]"
| "update_property key v (p # props) =
     (if fst p = key then (key, v) # props else p # update_property key v props)"

text \<open>A parameter of a query as the driver writes it: \<open>undefined\<close> is written as \<open>NULL\<close>.\<close>

fun cell :: "jsvalue \<Rightarrow> jsvalue" where
  "cell Undefined = Null"
| "cell v = v"

fun cell_of_text :: "jsstring option \<Rightarrow> jsvalue" where
  "cell_of_text None = Null"
| "cell_of_text (Some s) = String s"

text \<open>
  Modelled from the spec: the relational datastore behind \<open>pool.query\<close> (the module
  \<open>lib/db\<close> and the database are not among the sources), a row store with an
  upsert-by-id contract. The table is the list of its rows; a column hands back the
  value that was written to it. \<open>INSERT ... ON DUPLICATE KEY UPDATE\<close> overwrites the
  listed columns of the row with the same \<open>id\<close>, or adds the row;
  \<open>SELECT * ... ORDER BY dateCreated DESC\<close> gives all rows, the latest first, where
  \<open>datetime_order\<close> places a stored date in the order of the database.
\<close>

definition insert_or_update :: "row \<Rightarrow> row \<Rightarrow> row list \<Rightarrow> row list" where
  "insert_or_update inserted updated tbl =
     (if list_ex (\<lambda>r. map_of r (utf16 ''id'') = map_of inserted (utf16 ''id'')) tbl
      then map (\<lambda>r. if map_of r (utf16 ''id'') = map_of inserted (utf16 ''id'')
                      then fold (\<lambda>(k, v). update_property k v) updated r else r) tbl
      else tbl @ [inserted])"

definition select_all_desc :: "(jsvalue \<Rightarrow> int) \<Rightarrow> row list \<Rightarrow> row list" where
  "select_all_desc datetime_order tbl =
     rev (sort_key (\<lambda>r. datetime_order (property (utf16 ''dateCreated'') (Object r))) tbl)"

text \<open>\<open>POST\<close>: the values of the \<open>INSERT\<close>, those of the \<open>UPDATE\<close>, and the query.\<close>

definition POST_update_values :: "platform \<Rightarrow> jsvalue \<Rightarrow> row" where
  "POST_update_values pf post =
     [(utf16 ''slug'', cell (property (utf16 ''slug'') post)),
      (utf16 ''title'', cell (property (utf16 ''title'') post)),
      (utf16 ''excerpt'', cell (property (utf16 ''excerpt'') post)),
      (utf16 ''content'', cell (property (utf16 ''content'') post)),
      (utf16 ''keywords'', cell_of_text (JSON_stringify pf (property (utf16 ''keywords'') post) 0)),
      (utf16 ''category'', cell (property (utf16 ''category'') post)),
      (utf16 ''status'', cell (property (utf16 ''status'') post)),
      (utf16 ''readTime'', cell (property (utf16 ''readTime'') post)),
      (utf16 ''coverImage'', cell (property (utf16 ''coverImage'') post)),
      (utf16 ''geoTargeting'', cell (property (utf16 ''geoTargeting'') post)),
      (utf16 ''seoScore'', cell (property (utf16 ''seoScore'') post)),
      (utf16 ''aeoQuestions'',
         cell_of_text (JSON_stringify pf (property (utf16 ''aeoQuestions'') post) 0)),
      (utf16 ''commercialIntent'',
         Number (if truthy (property (utf16 ''commercialIntent'') post) then 1 else 0)),
      (utf16 ''isHowTo'', Number (if truthy (property (utf16 ''isHowTo'') post) then 1 else 0)),
      (utf16 ''steps'',
         cell_of_text (JSON_stringify pf (or_else (property (utf16 ''steps'') post) (Array [])) 0)),
      (utf16 ''scheduledDate'', or_else (property (utf16 ''scheduledDate'') post) Null)]"

definition POST_insert_values :: "platform \<Rightarrow> jsvalue \<Rightarrow> row" where
  "POST_insert_values pf post =
     [(utf16 ''id'', cell (property (utf16 ''id'') post)),
      (utf16 ''slug'', cell (property (utf16 ''slug'') post)),
      (utf16 ''title'', cell (property (utf16 ''title'') post)),
      (utf16 ''excerpt'', cell (property (utf16 ''excerpt'') post)),
      (utf16 ''content'', cell (property (utf16 ''content'') post)),
      (utf16 ''keywords'', cell_of_text (JSON_stringify pf (property (utf16 ''keywords'') post) 0)),
      (utf16 ''category'', cell (property (utf16 ''category'') post)),
      (utf16 ''dateCreated'', new_Date pf (property (utf16 ''dateCreated'') post)),
      (utf16 ''status'', cell (property (utf16 ''status'') post)),
      (utf16 ''readTime'', cell (property (utf16 ''readTime'') post)),
      (utf16 ''coverImage'', cell (property (utf16 ''coverImage'') post)),
      (utf16 ''geoTargeting'', cell (property (utf16 ''geoTargeting'') post)),
      (utf16 ''seoScore'', cell (property (utf16 ''seoScore'') post)),
      (utf16 ''aeoQuestions'',
         cell_of_text (JSON_stringify pf (property (utf16 ''aeoQuestions'') post) 0)),
      (utf16 ''commercialIntent'',
         Number (if truthy (property (utf16 ''commercialIntent'') post) then 1 else 0)),
      (utf16 ''isHowTo'', Number (if truthy (property (utf16 ''isHowTo'') post) then 1 else 0)),
      (utf16 ''steps'',
         cell_of_text (JSON_stringify pf (or_else (property (utf16 ''steps'') post) (Array [])) 0)),
      (utf16 ''scheduledDate'', or_else (property (utf16 ''scheduledDate'') post) Null)]"

definition POST :: "platform \<Rightarrow> jsvalue \<Rightarrow> row list \<Rightarrow> row list" where
  "POST pf post tbl = insert_or_update (POST_insert_values pf post) (POST_update_values pf post) tbl"

text \<open>\<open>GET\<close>: what the map does to one row, then the whole handler. An exception of
  \<open>JSON.parse\<close> ends the map, and the handler answers with status 500.\<close>

fun is_string :: "jsvalue \<Rightarrow> bool" where
  "is_string (String s) = True"
| "is_string v = False"

definition GET_row :: "platform \<Rightarrow> row \<Rightarrow> js_error + row" where
  "GET_row pf post =
     (case (if truthy (property (utf16 ''keywords'') (Object post))
            then JSON_parse pf (property (utf16 ''keywords'') (Object post))
            else Inr (Array [])) of
        Inl e \<Rightarrow> Inl e
      | Inr ks \<Rightarrow>
          (case (if is_string (property (utf16 ''aeoQuestions'') (Object post))
                 then JSON_parse pf (property (utf16 ''aeoQuestions'') (Object post))
                 else Inr (or_else (property (utf16 ''aeoQuestions'') (Object post)) (Array []))) of
             Inl e \<Rightarrow> Inl e
           | Inr qs \<Rightarrow>
               (case (if truthy (property (utf16 ''steps'') (Object post))
                      then JSON_parse pf (property (utf16 ''steps'') (Object post))
                      else Inr (Array [])) of
                  Inl e \<Rightarrow> Inl e
                | Inr st \<Rightarrow>
                    Inr (update_property (utf16 ''isHowTo'')
                           (Boolean (truthy (property (utf16 ''isHowTo'') (Object post))))
                        (update_property (utf16 ''commercialIntent'')
                           (Boolean (truthy (property (utf16 ''commercialIntent'') (Object post))))
                        (update_property (utf16 ''steps'') st
                        (update_property (utf16 ''aeoQuestions'') qs
                        (update_property (utf16 ''keywords'') ks post))))))))"

fun map_rows :: "(row \<Rightarrow> js_error + row) \<Rightarrow> row list \<Rightarrow> js_error + row list" where
  "map_rows f [] = Inr []"
| "map_rows f (r # rs) =
     (case f r of
        Inl e \<Rightarrow> Inl e
      | Inr p \<Rightarrow> (case map_rows f rs of Inl e \<Rightarrow> Inl e | Inr ps \<Rightarrow> Inr (p # ps)))"

definition GET :: "platform \<Rightarrow> (jsvalue \<Rightarrow> int) \<Rightarrow> row list \<Rightarrow> js_error + row list" where
  "GET pf datetime_order tbl = map_rows (GET_row pf) (select_all_desc datetime_order tbl)"

section \<open>Example inputs\<close>

text \<open>An operation whose every invocation rejects with a transient error.\<close>

definition always_transient :: "('s, 'a) operation \<Rightarrow> bool" where
  "always_transient fn = (\<forall>s. \<exists>e s1. fn s = (Inl e, s1) \<and> isTransient e)"

text \<open>
  The state in which the policy makes its call number \<open>n\<close> when every call so far has
  failed with a transient error: call 0 is made in the state the policy starts in; call
  \<open>n + 1\<close> is made in the state that call \<open>n\<close> left, after the world has passed the
  wait of \<open>delay * 2^n\<close> milliseconds.
\<close>

primrec attempt_state ::
  "(nat \<Rightarrow> 's \<Rightarrow> 's) \<Rightarrow> ('s, 'a) operation \<Rightarrow> nat \<Rightarrow> 's \<Rightarrow> nat \<Rightarrow> 's" where
  "attempt_state pause fn delay s 0 = s"
| "attempt_state pause fn delay s (Suc n) =
     pause (delay * 2 ^ n) (snd (fn (attempt_state pause fn delay s n)))"

text \<open>An example: a provider that answers 503 to every call and counts the calls.\<close>

definition unavailable :: "js_error" where
  "unavailable = \<lparr>js_error.status = Number 503, response_status = Undefined, code = Undefined,
     message = Some (utf16 ''Service Unavailable'')\<rparr>"

definition always_503 :: "(nat, unit) operation" where
  "always_503 n = (Inl unavailable, Suc n)"


text \<open>A provider that rejects every call with a permanent error.\<close>

definition invalid_key :: "(nat, unit) operation" where
  "invalid_key n = (Inl (Error (utf16 ''API key not valid'')), Suc n)"

text \<open>\<open>toLowerCase\<close> on strings of ASCII characters.\<close>

definition ascii_toLowerCase :: "jsstring \<Rightarrow> jsstring" where
  "ascii_toLowerCase s = map (\<lambda>c. if 0x41 \<le> c \<and> c \<le> 0x5A then c + 0x20 else c) s"

text \<open>Inputs of the generation flow: a topic, a generated post with its optional fields
  absent, and a title whose 100th code unit is the first half of a surrogate pair (99
  letters \<open>a\<close>, then U+1F600).\<close>

definition tea_topic :: GeneratedTopic where
  "tea_topic = \<lparr>
     GeneratedTopic.topic = utf16 ''How to Brew Tea'',
     relevance = utf16 ''A daily habit'',
     GeneratedTopic.content = utf16 ''<p>Boil, then steep.</p>'',
     GeneratedTopic.excerpt = utf16 ''Two steps to a good cup.'',
     GeneratedTopic.keywords = [utf16 ''tea''],
     GeneratedTopic.category = utf16 ''Food'',
     GeneratedTopic.readTime = utf16 ''2 min read'',
     GeneratedTopic.geoTargeting = utf16 ''UK'',
     GeneratedTopic.aeoQuestions = [],
     GeneratedTopic.seoScore = 90,
     GeneratedTopic.coverImage = utf16 ''a cup of tea''\<rparr>"

definition tea_generated :: PartialPost where
  "tea_generated = \<lparr>
     PartialPost.title = Some (utf16 ''How to Brew Tea!''),
     PartialPost.content = Some (utf16 ''<p>Boil, then steep.</p>''),
     PartialPost.excerpt = Some (utf16 ''Two steps to a good cup.''),
     PartialPost.keywords = None,
     PartialPost.category = None,
     PartialPost.readTime = None,
     PartialPost.geoTargeting = None,
     PartialPost.aeoQuestions = None,
     PartialPost.seoScore = None,
     PartialPost.commercialIntent = Some True,
     PartialPost.isHowTo = Some False,
     PartialPost.steps = None\<rparr>"

definition emoji_topic :: jsstring where
  "emoji_topic = replicate 99 0x61 @ [0xD83D, 0xDE00]"

text \<open>
  A platform for the examples: the lower case of ASCII letters, a serialiser that prints
  every value as an empty object, and parsers that know the texts \<open>[tea]\<close> (one topic,
  with the given title), \<open>[]\<close> and \<open>{tea}\<close>.
\<close>

definition tea_platform :: "jsstring \<Rightarrow> platform" where
  "tea_platform subject = \<lparr>
     toLowerCase = ascii_toLowerCase,
     JSON_stringify = (\<lambda>v indent. Some (utf16 ''{}'')),
     JSON_parse = (\<lambda>txt. Inl (Error (utf16 ''Unexpected token''))),
     JSON_parse_topics = (\<lambda>txt. if txt = utf16 ''[tea]'' then Inr [tea_topic\<lparr>topic := subject\<rparr>]
        else if txt = utf16 ''[]'' then Inr []
        else Inl (Error (utf16 ''Unexpected token''))),
     JSON_parse_post = (\<lambda>txt. if txt = utf16 ''{tea}'' then Inr tea_generated
        else Inl (Error (utf16 ''Unexpected token''))),
     toISOString = (\<lambda>t. utf16 ''2025-01-01T09:00:00.000Z''),
     toLocaleString = (\<lambda>t. utf16 ''1/1/2025, 9:00:00 AM''),
     URL_canParse = (\<lambda>s. startsWith s (utf16 ''https://'')),
     new_Date = (\<lambda>v. v)\<rparr>"

text \<open>A provider that answers every request at once, and a world with it.\<close>

definition tea_provider :: "request \<Rightarrow> nat \<Rightarrow> js_error + GenerateContentResponse" where
  "tea_provider req k =
     (case req of
        TopicsRequest niche context n \<Rightarrow> Inr \<lparr>text = Some (utf16 ''[tea]'')\<rparr>
      | FullPostRequest subject tone context \<Rightarrow> Inr \<lparr>text = Some (utf16 ''{tea}'')\<rparr>)"

definition tea_world :: world where
  "tea_world = \<lparr>
     time = (\<lambda>k. 1700000000000 + k),
     clock_reads = 0,
     random = (\<lambda>k. 1 / 4),
     random_calls = 0,
     provider = tea_provider,
     provider_calls = 0,
     image_provider = (\<lambda>u k. ImageFetchRejects (Error (utf16 ''fetch failed''))),
     image_fetches = 0,
     storage = (\<lambda>r k. UploadFetchRejects (Error (utf16 ''fetch failed''))),
     uploads = 0,
     REMOTE_STORAGE_API_KEY = Some (utf16 ''secret''),
     REMOTE_STORAGE_API_URL = Some (utf16 ''https://storage.example/api.php''),
     waits = []\<rparr>"

text \<open>A string with no surrogate at all.\<close>

definition no_surrogates :: "jsstring \<Rightarrow> bool" where
  "no_surrogates s = (\<forall>c \<in> set s. \<not> leading_surrogate c \<and> \<not> trailing_surrogate c)"

definition example_platform :: platform where
  "example_platform = tea_platform (utf16 ''How to Brew Tea'')"

definition example_now :: jsstring where
  "example_now = utf16 ''2025-01-01T09:00:00.000Z''"

definition two_step_post :: BlogPost where
  "two_step_post = \<lparr>
     id' = utf16 ''1700000000000'',
     slug = utf16 ''how-to-brew-tea'',
     title = utf16 ''How to Brew Tea'',
     excerpt = utf16 ''Two steps to a good cup.'',
     content = utf16 ''<p>Boil, then steep.</p>'',
     keywords = [utf16 ''tea''],
     category = utf16 ''Food And Drink'',
     dateCreated = utf16 ''1/1/2025, 9:00:00 AM'',
     status = published,
     readTime = utf16 ''3 min read'',
     coverImage = None,
     geoTargeting = Some (utf16 ''Global''),
     seoScore = 85,
     aeoQuestions = Some [\<lparr>question = utf16 ''Which water?'', answer = utf16 ''Fresh water.''\<rparr>],
     commercialIntent = Some False,
     isHowTo = Some True,
     steps = Some [utf16 ''Boil water'', utf16 ''Steep the leaves''],
     scheduledDate = None\<rparr>"

text \<open>Worlds whose provider answers with no text, with text that is no JSON, and with
  503 to every call.\<close>

definition silent_world :: world where
  "silent_world = tea_world\<lparr>provider := (\<lambda>req k. Inr \<lparr>text = None\<rparr>)\<rparr>"

definition garbled_world :: world where
  "garbled_world = tea_world\<lparr>provider := (\<lambda>req k. Inr \<lparr>text = Some (utf16 ''<html>'')\<rparr>)\<rparr>"

definition overloaded_world :: world where
  "overloaded_world = tea_world\<lparr>provider := (\<lambda>req k. Inl unavailable)\<rparr>"

text \<open>A world whose provider lists topics but rejects the request for the full post.\<close>

definition postless_provider :: "request \<Rightarrow> nat \<Rightarrow> js_error + GenerateContentResponse" where
  "postless_provider req k =
     (case req of
        TopicsRequest niche context n \<Rightarrow> Inr \<lparr>text = Some (utf16 ''[tea]'')\<rparr>
      | FullPostRequest subject tone context \<Rightarrow> Inl (Error (utf16 ''API key not valid'')))"

definition postless_world :: world where
  "postless_world = tea_world\<lparr>provider := postless_provider\<rparr>"

text \<open>
  The fields of a post that \<open>generateAndPublishAutoPost\<close> defaults: each has the fixed
  value when the generated field is absent (or is the empty string, or the number 0), and
  the generated value otherwise.
\<close>

definition defaulted :: "PartialPost \<Rightarrow> BlogPost \<Rightarrow> bool" where
  "defaulted g post =
     (category post = (case PartialPost.category g of None \<Rightarrow> utf16 ''Auto-Generated''
        | Some c \<Rightarrow> if c = [] then utf16 ''Auto-Generated'' else c)
      \<and> readTime post = (case PartialPost.readTime g of None \<Rightarrow> utf16 ''3 min read''
        | Some c \<Rightarrow> if c = [] then utf16 ''3 min read'' else c)
      \<and> geoTargeting post = Some (case PartialPost.geoTargeting g of None \<Rightarrow> utf16 ''Global''
        | Some c \<Rightarrow> if c = [] then utf16 ''Global'' else c)
      \<and> seoScore post = (case PartialPost.seoScore g of None \<Rightarrow> 85
        | Some x \<Rightarrow> if x = 0 then 85 else x)
      \<and> keywords post = (case PartialPost.keywords g of None \<Rightarrow> [] | Some ks \<Rightarrow> ks)
      \<and> aeoQuestions post = Some (case PartialPost.aeoQuestions g of None \<Rightarrow> [] | Some qs \<Rightarrow> qs))"

text \<open>
  The words of a topic that the fallback URL is built from, and whether an environment
  variable is unset or empty.
\<close>

definition fallback_keywords :: "jsstring \<Rightarrow> jsstring" where
  "fallback_keywords subject = join (utf16 '','') (take 3 (split_on 0x20 subject))"

definition unset :: "jsstring option \<Rightarrow> bool" where
  "unset v = (v = None \<or> v = Some [])"

text \<open>Worlds with no storage configuration at all, and with the key but no URL.\<close>

definition unconfigured_world :: world where
  "unconfigured_world = tea_world\<lparr>REMOTE_STORAGE_API_KEY := None, REMOTE_STORAGE_API_URL := None\<rparr>"

definition keyed_world :: world where
  "keyed_world = tea_world\<lparr>REMOTE_STORAGE_API_URL := None\<rparr>"

text \<open>
  What \<open>POST\<close> writes for a post in the columns that \<open>GET\<close> converts: \<open>written pf post r\<close>
  says that the row \<open>r\<close> holds these values, under the \<open>id\<close> of the post.
\<close>

definition written :: "platform \<Rightarrow> jsvalue \<Rightarrow> row \<Rightarrow> bool" where
  "written pf post r =
     (map_of r (utf16 ''id'') = Some (cell (property (utf16 ''id'') post))
      \<and> map_of r (utf16 ''keywords'') =
          Some (cell_of_text (JSON_stringify pf (property (utf16 ''keywords'') post) 0))
      \<and> map_of r (utf16 ''aeoQuestions'') =
          Some (cell_of_text (JSON_stringify pf (property (utf16 ''aeoQuestions'') post) 0))
      \<and> map_of r (utf16 ''steps'') =
          Some (cell_of_text
            (JSON_stringify pf (or_else (property (utf16 ''steps'') post) (Array [])) 0))
      \<and> map_of r (utf16 ''commercialIntent'') =
          Some (Number (if truthy (property (utf16 ''commercialIntent'') post) then 1 else 0))
      \<and> map_of r (utf16 ''isHowTo'') =
          Some (Number (if truthy (property (utf16 ''isHowTo'') post) then 1 else 0)))"

text \<open>
  A value survives the round trip through JSON text on the platform: \<open>JSON.stringify\<close>
  gives a text, not empty, that \<open>JSON.parse\<close> reads back as the value.
\<close>

definition json_roundtrip :: "platform \<Rightarrow> jsvalue \<Rightarrow> bool" where
  "json_roundtrip pf v =
     (case JSON_stringify pf v 0 of
        None \<Rightarrow> False
      | Some t \<Rightarrow> t \<noteq> [] \<and> JSON_parse pf (String t) = Inr v)"

text \<open>
  What the claim promises of the object \<open>f\<close> that \<open>GET\<close> lists for a saved post: the
  three JSON fields as they were saved (an absent \<open>steps\<close> reads as the empty array),
  and the two flags as booleans.
\<close>

definition restored :: "jsvalue \<Rightarrow> row \<Rightarrow> bool" where
  "restored post f =
     (property (utf16 ''id'') (Object f) = cell (property (utf16 ''id'') post)
      \<and> property (utf16 ''keywords'') (Object f) = property (utf16 ''keywords'') post
      \<and> property (utf16 ''aeoQuestions'') (Object f) = property (utf16 ''aeoQuestions'') post
      \<and> property (utf16 ''steps'') (Object f) =
          or_else (property (utf16 ''steps'') post) (Array [])
      \<and> property (utf16 ''commercialIntent'') (Object f) =
          Boolean (truthy (property (utf16 ''commercialIntent'') post))
      \<and> property (utf16 ''isHowTo'') (Object f) =
          Boolean (truthy (property (utf16 ''isHowTo'') post)))"

text \<open>
  A post to save, with no \<open>steps\<close>; a row of another post, whose JSON columns are
  \<open>NULL\<close>; and a platform whose JSON functions know the three texts that the post needs.
\<close>

definition saved_post :: jsvalue where
  "saved_post = Object
     [(utf16 ''id'', lit ''1700000000000''),
      (utf16 ''slug'', lit ''how-to-brew-tea''),
      (utf16 ''title'', lit ''How to Brew Tea''),
      (utf16 ''keywords'', Array [lit ''tea'']),
      (utf16 ''dateCreated'', lit ''1/1/2025, 9:00:00 AM''),
      (utf16 ''aeoQuestions'', Array [Object
         [(utf16 ''question'', lit ''Which water?''), (utf16 ''answer'', lit ''Fresh water.'')]]),
      (utf16 ''commercialIntent'', Boolean True),
      (utf16 ''isHowTo'', Boolean False)]"

definition other_row :: row where
  "other_row =
     [(utf16 ''id'', lit ''1600000000000''),
      (utf16 ''title'', lit ''Coffee''),
      (utf16 ''keywords'', Null),
      (utf16 ''dateCreated'', lit ''1/1/2024, 9:00:00 AM''),
      (utf16 ''aeoQuestions'', Null),
      (utf16 ''commercialIntent'', Number 0),
      (utf16 ''isHowTo'', Number 1),
      (utf16 ''steps'', Null)]"

definition keywords_text :: jsstring where
  "keywords_text = utf16 ''['' @ [0x22] @ utf16 ''tea'' @ [0x22] @ utf16 '']''"

definition questions_text :: jsstring where
  "questions_text =
     utf16 ''[{'' @ [0x22] @ utf16 ''question'' @ [0x22] @ utf16 '':'' @ [0x22] @
     utf16 ''Which water?'' @ [0x22] @ utf16 '','' @ [0x22] @ utf16 ''answer'' @ [0x22] @
     utf16 '':'' @ [0x22] @ utf16 ''Fresh water.'' @ [0x22] @ utf16 ''}]''"

definition codec_platform :: platform where
  "codec_platform = example_platform\<lparr>
     JSON_stringify := (\<lambda>v indent.
        if v = property (utf16 ''keywords'') saved_post then Some keywords_text
        else if v = property (utf16 ''aeoQuestions'') saved_post then Some questions_text
        else if v = Array [] then Some (utf16 ''[]'')
        else None),
     JSON_parse := (\<lambda>v.
        if v = String keywords_text then Inr (property (utf16 ''keywords'') saved_post)
        else if v = String questions_text then Inr (property (utf16 ''aeoQuestions'') saved_post)
        else if v = String (utf16 ''[]'') then Inr (Array [])
        else Inl (Error (utf16 ''Unexpected token'')))\<rparr>"

section \<open>Properties of the retry policy\<close>

lemma isTransient_unavailable: "isTransient unavailable"
  by (simp add: isTransient_def error_status_def or_else_def unavailable_def)

lemma attempt_state_shift:
  "attempt_state pause fn delay s (Suc n) =
     attempt_state pause fn (delay * 2) (pause delay (snd (fn s))) n"
  by (induction n) (simp_all add: mult.assoc)

lemma retry_all_transient_result:
  assumes "always_transient fn"
  shows "retryWithBackoff pause fn retries delay s =
           (fn (attempt_state pause fn delay s retries),
            concat (map (\<lambda>n. [Attempt, Wait (delay * 2 ^ n)]) [0..<retries]) @ [Attempt])"
proof (induction retries arbitrary: delay s)
  case 0
  from assms obtain e s1 where "fn s = (Inl e, s1)"
    unfolding always_transient_def by blast
  then show ?case by (simp add: retryWithBackoff.simps)
next
  case (Suc r)
  from assms obtain e s1 where f: "fn s = (Inl e, s1)" and t: "isTransient e"
    unfolding always_transient_def by blast
  have shift: "map (\<lambda>n. [Attempt, Wait (delay * 2 ^ n)]) [0..<Suc r] =
                 [Attempt, Wait delay] # map (\<lambda>n. [Attempt, Wait (delay * 2 * 2 ^ n)]) [0..<r]"
    by (simp add: upt_conv_Cons map_Suc_upt [symmetric] del: upt_Suc)
  have "retryWithBackoff pause fn (Suc r) delay s =
          (fst (retryWithBackoff pause fn r (delay * 2) (pause delay s1)),
           Attempt # Wait delay # snd (retryWithBackoff pause fn r (delay * 2) (pause delay s1)))"
    using f t by (simp add: retryWithBackoff.simps [of pause fn "Suc r"] split: prod.splits)
  also have "\<dots> = (fn (attempt_state pause fn (delay * 2) (pause delay s1) r),
       Attempt # Wait delay #
       concat (map (\<lambda>n. [Attempt, Wait (delay * 2 * 2 ^ n)]) [0..<r]) @ [Attempt])"
    by (simp add: Suc.IH [of "delay * 2" "pause delay s1"])
  also have "attempt_state pause fn (delay * 2) (pause delay s1) r =
      attempt_state pause fn delay s (Suc r)"
    using f by (simp only: attempt_state_shift snd_conv)
  finally show ?case
    unfolding shift by simp
qed

lemma attempts_rounds:
  "attempts (concat (map (\<lambda>n. [Attempt, Wait (f n)]) ns) @ [Attempt]) = length ns + 1"
  by (induction ns) simp_all

lemma delays_rounds:
  "delays (concat (map (\<lambda>n. [Attempt, Wait (f n)]) ns) @ [Attempt]) = map f ns"
  by (induction ns) simp_all

text \<open>
  C1. When every invocation of the wrapped operation fails with a transient error, the
  operation is called exactly \<open>retries + 1\<close> times, and the wait before the \<open>n\<close>-th retry
  (\<open>n = 1, ..., retries\<close>) is \<open>delay * 2^(n-1)\<close>; with the defaults \<open>retries = 3\<close> and
  \<open>delay = 2000\<close> the waits are 2000, 4000 and 8000 milliseconds. This is stated of the
  trace and of the state, for every operation and every effect of waiting: the policy
  returns what the last of the \<open>retries + 1\<close> calls returns, made in the state that the
  calls and waits before it have left, each wait falling between two calls.
\<close>

theorem retryWithBackoff_transient_schedule:
  assumes "always_transient fn"
  shows "attempts (snd (retryWithBackoff pause fn retries delay s)) = retries + 1
       \<and> delays (snd (retryWithBackoff pause fn retries delay s)) =
           map (\<lambda>n. delay * 2 ^ (n - 1)) [1..<retries + 1]
       \<and> delays (snd (retryWithBackoff pause fn 3 2000 s)) = [2000, 4000, 8000]
       \<and> retryWithBackoff pause fn retries delay s =
           (fn (attempt_state pause fn delay s retries),
            concat (map (\<lambda>n. [Attempt, Wait (delay * 2 ^ n)]) [0..<retries]) @ [Attempt])
       \<and> retryWithBackoff pause fn 3 2000 s =
           (fn (pause 8000 (snd (fn (pause 4000 (snd (fn (pause 2000 (snd (fn s))))))))),
            [Attempt, Wait 2000, Attempt, Wait 4000, Attempt, Wait 8000, Attempt])"
proof -
  have m: "map (\<lambda>n. d * 2 ^ n) [0..<r] = map (\<lambda>n. d * 2 ^ (n - 1)) [1..<r + 1]" for d r :: nat
    by (induction r) simp_all
  have u: "[0..<3] = [0, 1, 2]"
    by (simp add: upt_conv_Cons)
  have d: "attempt_state pause fn 2000 s 3 =
      pause 8000 (snd (fn (pause 4000 (snd (fn (pause 2000 (snd (fn s))))))))"
    by (simp add: numeral_3_eq_3)
  have "retryWithBackoff pause fn 3 2000 s =
           (fn (pause 8000 (snd (fn (pause 4000 (snd (fn (pause 2000 (snd (fn s))))))))),
            [Attempt, Wait 2000, Attempt, Wait 4000, Attempt, Wait 8000, Attempt])"
    unfolding retry_all_transient_result [OF assms] d u by simp
  then show ?thesis
    by (simp add: retry_all_transient_result [OF assms] attempts_rounds delays_rounds m
          del: upt_Suc)
qed

theorem retryWithBackoff_transient_schedule_witness:
  "always_transient always_503
   \<and> attempts (snd (retryWithBackoff (\<lambda>d s. s + d) always_503 3 2000 0)) = 4
   \<and> delays (snd (retryWithBackoff (\<lambda>d s. s + d) always_503 3 2000 0)) = [2000, 4000, 8000]
   \<and> retryWithBackoff (\<lambda>d s. s + d) always_503 3 2000 0 =
       ((Inl unavailable, 14004),
        [Attempt, Wait 2000, Attempt, Wait 4000, Attempt, Wait 8000, Attempt])
   \<and> retryWithBackoff (\<lambda>d s. s + d) always_503 2 500 0 =
       ((Inl unavailable, 1503), [Attempt, Wait 500, Attempt, Wait 1000, Attempt])"
proof -
  have h: "always_transient always_503"
    by (simp add: always_transient_def always_503_def isTransient_unavailable)
  note t = retryWithBackoff_transient_schedule [OF h, of "\<lambda>d s. s + d" _ _ 0]
  from t [of 3 2000]
  have "attempts (snd (retryWithBackoff (\<lambda>d s. s + d) always_503 3 2000 0)) = 3 + 1"
    by blast
  then have "attempts (snd (retryWithBackoff (\<lambda>d s. s + d) always_503 3 2000 0)) = 4"
    by simp
  moreover from t [of 3 2000]
  have "delays (snd (retryWithBackoff (\<lambda>d s. s + d) always_503 3 2000 0)) = [2000, 4000, 8000]"
    by blast
  moreover from t [of 3 2000]
  have "retryWithBackoff (\<lambda>d s. s + d) always_503 3 2000 0 =
       (always_503 (snd (always_503 (snd (always_503 (snd (always_503 0) + 2000)) + 4000)) + 8000),
        [Attempt, Wait 2000, Attempt, Wait 4000, Attempt, Wait 8000, Attempt])"
    by blast
  then have "retryWithBackoff (\<lambda>d s. s + d) always_503 3 2000 0 =
       ((Inl unavailable, 14004),
        [Attempt, Wait 2000, Attempt, Wait 4000, Attempt, Wait 8000, Attempt])"
    by (simp add: always_503_def)
  moreover from t [of 2 500]
  have "retryWithBackoff (\<lambda>d s. s + d) always_503 2 500 0 =
       (always_503 (attempt_state (\<lambda>d s. s + d) always_503 500 0 2),
        concat (map (\<lambda>n. [Attempt, Wait (500 * 2 ^ n)]) [0..<2]) @ [Attempt])"
    by blast
  then have "retryWithBackoff (\<lambda>d s. s + d) always_503 2 500 0 =
       ((Inl unavailable, 1503), [Attempt, Wait 500, Attempt, Wait 1000, Attempt])"
    by (simp add: always_503_def numeral_2_eq_2 upt_conv_Cons)
  ultimately show ?thesis using h by blast
qed

text \<open>
  C2. When the first invocation fails with a permanent error, the policy calls the
  operation once, waits for nothing and rejects with that same error; the state is the
  one the failed call left.
\<close>

theorem retryWithBackoff_permanent:
  assumes "fn s = (Inl err, s1)" and "\<not> isTransient err"
  shows "retryWithBackoff pause fn retries delay s = ((Inl err, s1), [Attempt])"
  using assms by (simp add: retryWithBackoff.simps)






theorem retryWithBackoff_permanent_witness:
  "\<not> isTransient (Error (utf16 ''API key not valid''))
   \<and> retryWithBackoff (\<lambda>d s. s) invalid_key 3 2000 0
       = ((Inl (Error (utf16 ''API key not valid'')), 1), [Attempt])"
proof -
  have p: "\<not> isTransient (Error (utf16 ''API key not valid''))"
    by (simp add: isTransient_def error_status_def or_else_def Error_def utf16_def)
  have f: "invalid_key 0 = (Inl (Error (utf16 ''API key not valid'')), 1)"
    by (simp add: invalid_key_def)
  from retryWithBackoff_permanent [of invalid_key 0 _ 1 "\<lambda>d s. s" 3 2000, OF f p] p
  show ?thesis by blast
qed

section \<open>Properties of the structured-data aggregator\<close>

lemma schema_type_BlogPosting:
  "schema_type (with_context (generateBlogPostingSchema now post)) = lit ''BlogPosting''"
  by (simp add: schema_type_def generateBlogPostingSchema_def utf16_def)

lemma schema_type_Organization:
  "schema_type (with_context generateOrganizationSchema) = lit ''Organization''"
  by (simp add: schema_type_def generateOrganizationSchema_def utf16_def)

lemma schema_type_Breadcrumb:
  "schema_type (with_context (generateBreadcrumbSchema pf post)) = lit ''BreadcrumbList''"
  by (simp add: schema_type_def generateBreadcrumbSchema_def utf16_def)

lemma FAQ_cases:
  "generateFAQSchema post = Null \<and> \<not> (case aeoQuestions post of None \<Rightarrow> False | Some qs \<Rightarrow> qs \<noteq> [])
   \<or> schema_type (with_context (generateFAQSchema post)) = lit ''FAQPage'' \<and> truthy (generateFAQSchema post)
     \<and> (case aeoQuestions post of None \<Rightarrow> False | Some qs \<Rightarrow> qs \<noteq> [])"
  by (simp add: schema_type_def generateFAQSchema_def utf16_def split: option.splits)

lemma HowTo_cases:
  "generateHowToSchema post = Null
     \<and> \<not> (isHowTo post = Some True \<and> (case steps post of None \<Rightarrow> False | Some ss \<Rightarrow> 3 \<le> length ss))
   \<or> schema_type (with_context (generateHowToSchema post)) = lit ''HowTo'' \<and> truthy (generateHowToSchema post)
     \<and> (isHowTo post = Some True \<and> (case steps post of None \<Rightarrow> False | Some ss \<Rightarrow> 3 \<le> length ss))"
  by (simp add: schema_type_def generateHowToSchema_def utf16_def split: option.splits)

lemma Service_cases:
  "generateServiceSchema post = Null \<and> commercialIntent post \<noteq> Some True
   \<or> schema_type (with_context (generateServiceSchema post)) = lit ''Service'' \<and> truthy (generateServiceSchema post)
     \<and> commercialIntent post = Some True"
  by (simp add: schema_type_def generateServiceSchema_def utf16_def split: option.splits)

lemma aggregate_types:
  "map schema_type (aggregateSchemas pf now post) =
     [lit ''BlogPosting'', lit ''Organization'', lit ''BreadcrumbList'']
     @ (if (case aeoQuestions post of None \<Rightarrow> False | Some qs \<Rightarrow> qs \<noteq> []) then [lit ''FAQPage''] else [])
     @ (if isHowTo post = Some True \<and> (case steps post of None \<Rightarrow> False | Some ss \<Rightarrow> 3 \<le> length ss)
        then [lit ''HowTo''] else [])
     @ (if commercialIntent post = Some True then [lit ''Service''] else [])"
  using FAQ_cases [of post] HowTo_cases [of post] Service_cases [of post]
  by (auto simp: aggregateSchemas_def Let_def schema_type_BlogPosting schema_type_Organization
        schema_type_Breadcrumb)

text \<open>
  C4. For every post the aggregator emits the BlogPosting, Organization and
  BreadcrumbList fragments, in this order, as its first three fragments; after them a
  FAQPage fragment exactly when \<open>aeoQuestions\<close> is present and not empty, a HowTo fragment
  exactly when \<open>isHowTo\<close> is true and \<open>steps\<close> has at least 3 entries, and a Service
  fragment exactly when \<open>commercialIntent\<close> is true. In particular \<open>isHowTo = true\<close> with
  exactly 2 steps gives no HowTo fragment, and \<open>commercialIntent = false\<close> gives no
  Service fragment.
\<close>

theorem aggregateSchemas_fragments:
  "take 3 (map schema_type (aggregateSchemas pf now post)) =
     [lit ''BlogPosting'', lit ''Organization'', lit ''BreadcrumbList'']
   \<and> map schema_type (aggregateSchemas pf now post) =
       [lit ''BlogPosting'', lit ''Organization'', lit ''BreadcrumbList'']
       @ (if (case aeoQuestions post of None \<Rightarrow> False | Some qs \<Rightarrow> qs \<noteq> [])
          then [lit ''FAQPage''] else [])
       @ (if isHowTo post = Some True
             \<and> (case steps post of None \<Rightarrow> False | Some ss \<Rightarrow> 3 \<le> length ss)
          then [lit ''HowTo''] else [])
       @ (if commercialIntent post = Some True then [lit ''Service''] else [])
   \<and> (lit ''FAQPage'' \<in> set (map schema_type (aggregateSchemas pf now post))) =
       (case aeoQuestions post of None \<Rightarrow> False | Some qs \<Rightarrow> qs \<noteq> [])
   \<and> (lit ''HowTo'' \<in> set (map schema_type (aggregateSchemas pf now post))) =
       (isHowTo post = Some True
        \<and> (case steps post of None \<Rightarrow> False | Some ss \<Rightarrow> 3 \<le> length ss))
   \<and> (lit ''Service'' \<in> set (map schema_type (aggregateSchemas pf now post))) =
       (commercialIntent post = Some True)
   \<and> (isHowTo post = Some True \<and> map_option length (steps post) = Some 2 \<longrightarrow>
        lit ''HowTo'' \<notin> set (map schema_type (aggregateSchemas pf now post)))
   \<and> (commercialIntent post = Some False \<longrightarrow>
        lit ''Service'' \<notin> set (map schema_type (aggregateSchemas pf now post)))"
  unfolding aggregate_types
  by (auto simp: utf16_def split: option.splits)

theorem aggregateSchemas_fragments_witness:
  "isHowTo two_step_post = Some True \<and> map_option length (steps two_step_post) = Some 2
   \<and> commercialIntent two_step_post = Some False
   \<and> lit ''HowTo'' \<notin> set (map schema_type (aggregateSchemas example_platform example_now two_step_post))
   \<and> lit ''Service'' \<notin> set (map schema_type (aggregateSchemas example_platform example_now two_step_post))
   \<and> map schema_type (aggregateSchemas example_platform example_now two_step_post) =
       [lit ''BlogPosting'', lit ''Organization'', lit ''BreadcrumbList'', lit ''FAQPage'']"
proof -
  have h: "isHowTo two_step_post = Some True" "map_option length (steps two_step_post) = Some 2"
    "commercialIntent two_step_post = Some False"
    by (simp_all add: two_step_post_def)
  have a: "aeoQuestions two_step_post \<noteq> None" "aeoQuestions two_step_post \<noteq> Some []"
    by (simp_all add: two_step_post_def)
  note t = aggregateSchemas_fragments [of example_platform example_now two_step_post]
  from t h have "lit ''HowTo'' \<notin> set (map schema_type (aggregateSchemas example_platform example_now two_step_post))"
    by blast
  moreover from t h
  have "lit ''Service'' \<notin> set (map schema_type (aggregateSchemas example_platform example_now two_step_post))"
    by blast
  moreover from t
  have "map schema_type (aggregateSchemas example_platform example_now two_step_post) =
       [lit ''BlogPosting'', lit ''Organization'', lit ''BreadcrumbList'', lit ''FAQPage'']"
    by (simp add: two_step_post_def)
  ultimately show ?thesis using h by blast
qed

lemma hd_aggregate:
  "hd (aggregateSchemas pf now post) = with_context (generateBlogPostingSchema now post)"
  by (simp add: aggregateSchemas_def Let_def)

lemma tl_aggregate:
  "tl (aggregateSchemas pf now1 post) = tl (aggregateSchemas pf now2 post)"
  by (simp add: aggregateSchemas_def Let_def)

lemma delete_dateModified:
  "delete_property (utf16 ''dateModified'') (with_context (generateBlogPostingSchema now1 post)) =
   delete_property (utf16 ''dateModified'') (with_context (generateBlogPostingSchema now2 post))"
  by (simp add: generateBlogPostingSchema_def utf16_def)

lemma property_dateModified:
  "property (utf16 ''dateModified'') (with_context (generateBlogPostingSchema now post)) = String now"
  by (simp add: generateBlogPostingSchema_def utf16_def)

text \<open>
  C8. Two calls of the aggregator on the same post, at times \<open>now1\<close> and \<open>now2\<close>, give
  the same fragments but for the \<open>dateModified\<close> of the first one, the BlogPosting
  fragment: the fragments after the first are equal, and the first ones are equal once
  \<open>dateModified\<close>, which holds the time of the call, is deleted.
\<close>

theorem aggregateSchemas_idempotent:
  "aggregateSchemas pf now1 post \<noteq> []
   \<and> tl (aggregateSchemas pf now1 post) = tl (aggregateSchemas pf now2 post)
   \<and> schema_type (hd (aggregateSchemas pf now1 post)) = lit ''BlogPosting''
   \<and> property (utf16 ''dateModified'') (hd (aggregateSchemas pf now1 post)) = String now1
   \<and> property (utf16 ''dateModified'') (hd (aggregateSchemas pf now2 post)) = String now2
   \<and> delete_property (utf16 ''dateModified'') (hd (aggregateSchemas pf now1 post)) =
       delete_property (utf16 ''dateModified'') (hd (aggregateSchemas pf now2 post))"
proof -
  have "aggregateSchemas pf now1 post \<noteq> []"
    by (simp add: aggregateSchemas_def Let_def)
  then show ?thesis
    using tl_aggregate [of pf now1 post now2] delete_dateModified [of now1 post now2]
    by (simp add: hd_aggregate schema_type_BlogPosting property_dateModified)
qed

section \<open>Properties of the generation client\<close>

lemma unreserved_not_surrogate:
  "uri_unreserved c \<Longrightarrow> \<not> trailing_surrogate c \<and> \<not> leading_surrogate c"
  unfolding uri_unreserved_def trailing_surrogate_def leading_surrogate_def
  by (auto simp: word_le_nat_alt)

lemma encodeURIComponent_throws:
  "encodeURIComponent s = Inl e \<Longrightarrow> e = URIError \<and> \<not> isWellFormed s"
proof (induction s arbitrary: e rule: encodeURIComponent.induct)
  case 1
  then show ?case by simp
next
  case (2 c s)
  then show ?case
    by (auto simp: unreserved_not_surrogate map_sum_def split: if_splits list.splits sum.splits)
qed

lemma encodeURIComponent_returns:
  "encodeURIComponent s = Inr r \<Longrightarrow> isWellFormed s"
proof (induction s arbitrary: r rule: encodeURIComponent.induct)
  case 1
  then show ?case by simp
next
  case (2 c s)
  then show ?case
    by (auto simp: unreserved_not_surrogate map_sum_def split: if_splits list.splits sum.splits)
qed

lemma encodeURIComponent_wellformed:
  "isWellFormed s \<Longrightarrow> \<exists>r. encodeURIComponent s = Inr r"
  "\<not> isWellFormed s \<Longrightarrow> encodeURIComponent s = Inl URIError"
  using encodeURIComponent_throws [of s] encodeURIComponent_returns [of s]
  by (cases "encodeURIComponent s"; auto)+

lemma isWellFormed_prepend:
  "no_surrogates p \<Longrightarrow> isWellFormed (p @ s) = isWellFormed s"
  by (induction p) (simp_all add: no_surrogates_def)

lemma isWellFormed_append:
  "no_surrogates (d # q) \<Longrightarrow> isWellFormed (s @ d # q) = isWellFormed s"
proof (induction s rule: isWellFormed.induct)
  case 1
  then show ?case using isWellFormed_prepend [of "d # q" "[]"] by simp
next
  case (2 c s)
  then show ?case
    by (cases s) (auto simp: no_surrogates_def)
qed

lemma wrapped_prompt_wellformed:
  "isWellFormed (utf16 ''High-quality cinematic blog header image for: '' @ s @
       utf16 '', vivid colors, detailed, professional photography'') = isWellFormed s"
proof -
  have p: "no_surrogates (utf16 ''High-quality cinematic blog header image for: '')"
    unfolding no_surrogates_def utf16_def by code_simp
  have q: "no_surrogates (0x2C # utf16 '' vivid colors, detailed, professional photography'')"
    unfolding no_surrogates_def utf16_def by code_simp
  have "utf16 '', vivid colors, detailed, professional photography'' =
          0x2C # utf16 '' vivid colors, detailed, professional photography''"
    by (simp add: utf16_def)
  then show ?thesis
    using isWellFormed_prepend [OF p] isWellFormed_append [OF q] by simp
qed

lemma startsWith_append: "startsWith (p @ s) p"
  by (induction p) simp_all

lemma generateCoverImage_wellformed:
  assumes "isWellFormed (take (if isRawPrompt then 200 else 100) prompt)"
  shows "\<exists>finalPrompt. generateCoverImage prompt isRawPrompt w =
           (Inr (utf16 ''https://image.pollinations.ai/prompt/'' @ finalPrompt @
                 utf16 ''?width=1000&height=500&nologo=true&seed='' @
                 Number_toString (fst (random_below 1000000 w))),
            w\<lparr>random_calls := Suc (random_calls w)\<rparr>)"
proof (cases isRawPrompt)
  case True
  with assms obtain r where "encodeURIComponent (take 200 prompt) = Inr r"
    using encodeURIComponent_wellformed(1) by auto
  with True show ?thesis
    by (simp add: generateCoverImage_def random_below_def)
next
  case False
  with assms wrapped_prompt_wellformed [of "take 100 prompt"]
  obtain r where "encodeURIComponent (utf16 ''High-quality cinematic blog header image for: '' @
       take 100 prompt @ utf16 '', vivid colors, detailed, professional photography'') = Inr r"
    using encodeURIComponent_wellformed(1) by auto
  with False show ?thesis
    by (simp add: generateCoverImage_def random_below_def)
qed

lemma generateCoverImage_malformed:
  assumes "\<not> isWellFormed (take (if isRawPrompt then 200 else 100) prompt)"
  shows "generateCoverImage prompt isRawPrompt w = (Inl URIError, w)"
proof (cases isRawPrompt)
  case True
  with assms have "encodeURIComponent (take 200 prompt) = Inl URIError"
    using encodeURIComponent_wellformed(2) by auto
  with True show ?thesis
    by (simp add: generateCoverImage_def)
next
  case False
  with assms wrapped_prompt_wellformed [of "take 100 prompt"]
  have "encodeURIComponent (utf16 ''High-quality cinematic blog header image for: '' @
       take 100 prompt @ utf16 '', vivid colors, detailed, professional photography'') = Inl URIError"
    using encodeURIComponent_wellformed(2) by auto
  with False show ?thesis
    by (simp add: generateCoverImage_def)
qed

lemma autoPostCoverImage_cases:
  "startsWith (fst (autoPostCoverImage subject w)) (utf16 ''https://image.pollinations.ai/prompt/'')
   \<or> startsWith (fst (autoPostCoverImage subject w)) (utf16 ''https://picsum.photos/800/400?random='')"
proof (cases "isWellFormed (take 100 subject)")
  case True
  with generateCoverImage_wellformed [of False subject w] show ?thesis
    by (auto simp: autoPostCoverImage_def startsWith_append)
next
  case False
  with generateCoverImage_malformed [of False subject w] show ?thesis
    by (auto simp: autoPostCoverImage_def Date_now_def startsWith_append)
qed

lemma publishGenerated_coverImage:
  "coverImage (fst (publishGenerated pf t g w)) = Some (fst (autoPostCoverImage (topic t) w))"
  by (simp add: publishGenerated_def basePost_def Let_def split: prod.splits)

lemma generateAndPublishAutoPost_returns:
  assumes "generateAndPublishAutoPost pf niche w = (Inr post, w')"
  shows "\<exists>topics w1 i w2 generated w3.
           generateTopics pf niche None 3 w = (Inr topics, w1) \<and> topics \<noteq> []
         \<and> random_below (length topics) w1 = (i, w2) \<and> i < length topics
         \<and> generateFullPost pf (topic (topics ! i)) (utf16 ''Professional & Engaging'') None w2
             = (Inr generated, w3)
         \<and> publishGenerated pf (topics ! i) generated w3 = (post, w')"
  using assms unfolding generateAndPublishAutoPost_def
  by (auto split: prod.splits sum.splits if_splits)


lemma tea_world_fields:
  "provider tea_world = tea_provider" "provider_calls tea_world = 0"
  "random tea_world = (\<lambda>k. 1 / 4)" "random_calls tea_world = 0"
  "time tea_world = (\<lambda>k. 1700000000000 + k)" "clock_reads tea_world = 0"
  by (simp_all add: tea_world_def)

lemma tea_world_topics:
  assumes "isWellFormed subject"
  shows "\<exists>t. generateTopics (tea_platform subject) niche None 3 tea_world =
     (Inr [t], tea_world\<lparr>provider_calls := Suc 0, random_calls := Suc 0\<rparr>) \<and> topic t = subject"
proof -
  from assms obtain r where r: "encodeURIComponent subject = Inr r"
    using encodeURIComponent_wellformed(1) by blast
  have c: "generateContent (TopicsRequest niche None 3) tea_world =
             (Inr \<lparr>text = Some (utf16 ''[tea]'')\<rparr>, tea_world\<lparr>provider_calls := Suc 0\<rparr>)"
    by (simp add: generateContent_def tea_world_fields tea_provider_def)
  have p: "JSON_parse_topics (tea_platform subject) (utf16 ''[tea]'') =
             Inr [tea_topic\<lparr>topic := subject\<rparr>]"
    by (simp add: tea_platform_def)
  have n: "utf16 ''[tea]'' \<noteq> []"
    by (simp add: utf16_def)
  have a: "attach_cover_images [tea_topic\<lparr>topic := subject\<rparr>] (tea_world\<lparr>provider_calls := Suc 0\<rparr>) =
     (Inr [tea_topic\<lparr>topic := subject, GeneratedTopic.coverImage :=
              utf16 ''https://picsum.photos/seed/'' @ take 10 r @ Number_toString 250 @ utf16 ''/800/400''\<rparr>],
      tea_world\<lparr>provider_calls := Suc 0, random_calls := Suc 0\<rparr>)"
    by (simp add: r random_below_def tea_world_fields)
  show ?thesis
    using n
    by (simp add: generateTopics_def generateTopics_try_def retryWithBackoff.simps c p a
          del: attach_cover_images.simps)
qed

lemma tea_world_post:
  "generateFullPost (tea_platform subject) s tone None
      (tea_world\<lparr>provider_calls := Suc 0, random_calls := Suc (Suc 0)\<rparr>) =
     (Inr tea_generated, tea_world\<lparr>provider_calls := Suc (Suc 0), random_calls := Suc (Suc 0)\<rparr>)"
proof -
  have c: "generateContent (FullPostRequest s tone None)
             (tea_world\<lparr>provider_calls := Suc 0, random_calls := Suc (Suc 0)\<rparr>) =
             (Inr \<lparr>text = Some (utf16 ''{tea}'')\<rparr>,
              tea_world\<lparr>provider_calls := Suc (Suc 0), random_calls := Suc (Suc 0)\<rparr>)"
    by (simp add: generateContent_def tea_world_fields tea_provider_def)
  have p: "JSON_parse_post (tea_platform subject) (utf16 ''{tea}'') = Inr tea_generated"
    by (simp add: tea_platform_def)
  have n: "utf16 ''{tea}'' \<noteq> []"
    by (simp add: utf16_def)
  show ?thesis
    using n by (simp add: generateFullPost_def generateFullPost_try_def retryWithBackoff.simps c p)
qed

lemma tea_world_publish:
  assumes "generateTopics (tea_platform subject) niche None 3 tea_world =
     (Inr [t], tea_world\<lparr>provider_calls := Suc 0, random_calls := Suc 0\<rparr>)"
  shows "generateAndPublishAutoPost (tea_platform subject) niche tea_world =
     (Inr (fst (publishGenerated (tea_platform subject) t tea_generated
             (tea_world\<lparr>provider_calls := Suc (Suc 0), random_calls := Suc (Suc 0)\<rparr>))),
      snd (publishGenerated (tea_platform subject) t tea_generated
             (tea_world\<lparr>provider_calls := Suc (Suc 0), random_calls := Suc (Suc 0)\<rparr>)))"
proof -
  have r: "random_below (Suc 0) (tea_world\<lparr>provider_calls := Suc 0, random_calls := Suc 0\<rparr>) =
          (0, tea_world\<lparr>provider_calls := Suc 0, random_calls := Suc (Suc 0)\<rparr>)"
    by (simp add: random_below_def tea_world_fields)
  show ?thesis
    by (simp add: generateAndPublishAutoPost_def assms r tea_world_post split: prod.splits)
qed


lemma d1: "Number_toString 1700000000000 = utf16 ''1700000000000''"
  by (simp add: Number_toString.simps utf16_def)

text \<open>
  C10 as stated fails: for a well-formed title of 99 letters followed by U+1F600,
  \<open>generateCoverImage\<close> throws, and the post of \<open>generateAndPublishAutoPost\<close> carries the
  placeholder of picsum.photos.
\<close>

theorem generateCoverImage_throws:
  "isWellFormed emoji_topic
   \<and> generateCoverImage emoji_topic False tea_world = (Inl URIError, tea_world)
   \<and> map_sum (\<lambda>e. e) coverImage
       (fst (generateAndPublishAutoPost (tea_platform emoji_topic) (utf16 ''tea'') tea_world)) =
       Inr (Some (utf16 ''https://picsum.photos/800/400?random=1700000000000''))"
proof -
  have wf: "isWellFormed emoji_topic"
    unfolding emoji_topic_def by code_simp
  have "\<not> isWellFormed (take 100 emoji_topic)"
    unfolding emoji_topic_def by code_simp
  then have g: "generateCoverImage emoji_topic False w = (Inl URIError, w)" for w
    using generateCoverImage_malformed [of False emoji_topic w] by simp
  from tea_world_topics [OF wf, of "utf16 ''tea''"] obtain t where
    t: "generateTopics (tea_platform emoji_topic) (utf16 ''tea'') None 3 tea_world =
     (Inr [t], tea_world\<lparr>provider_calls := Suc 0, random_calls := Suc 0\<rparr>)" and s: "topic t = emoji_topic"
    by blast
  have "fst (autoPostCoverImage emoji_topic
          (tea_world\<lparr>provider_calls := Suc (Suc 0), random_calls := Suc (Suc 0)\<rparr>)) =
     utf16 ''https://picsum.photos/800/400?random='' @ Number_toString 1700000000000"
    by (simp add: autoPostCoverImage_def g Date_now_def tea_world_fields)
  also have "\<dots> = utf16 ''https://picsum.photos/800/400?random=1700000000000''"
    unfolding d1 by (simp add: utf16_def)
  finally have "coverImage (fst (publishGenerated (tea_platform emoji_topic) t tea_generated
       (tea_world\<lparr>provider_calls := Suc (Suc 0), random_calls := Suc (Suc 0)\<rparr>))) =
     Some (utf16 ''https://picsum.photos/800/400?random=1700000000000'')"
    by (simp add: publishGenerated_coverImage s)
  then have "map_sum (\<lambda>e. e) coverImage
       (fst (generateAndPublishAutoPost (tea_platform emoji_topic) (utf16 ''tea'') tea_world)) =
       Inr (Some (utf16 ''https://picsum.photos/800/400?random=1700000000000''))"
    by (simp add: tea_world_publish [OF t])
  with wf g show ?thesis by blast
qed

text \<open>
  C10, as amended. \<open>generateCoverImage\<close> performs no network I/O: of the world it only
  draws one random number, and nothing when it throws. When the first 100 code units of
  the prompt (the first 200 of a raw prompt) have no unpaired surrogate, it returns a
  pollinations.ai URL with width 1000, height 500 and the random seed; otherwise, as when
  the cut falls inside a surrogate pair, it throws a \<open>URIError\<close>. So the catch branch
  of \<open>generateAndPublishAutoPost\<close> can be reached, and the cover image of the post it
  returns is a pollinations.ai URL or the placeholder of picsum.photos seeded by the
  clock.
\<close>

theorem generateCoverImage_outcomes:
  "(isWellFormed (take (if isRawPrompt then 200 else 100) prompt) \<longrightarrow>
      (\<exists>finalPrompt. generateCoverImage prompt isRawPrompt w =
         (Inr (utf16 ''https://image.pollinations.ai/prompt/'' @ finalPrompt @
               utf16 ''?width=1000&height=500&nologo=true&seed='' @
               Number_toString (fst (random_below 1000000 w))),
          w\<lparr>random_calls := Suc (random_calls w)\<rparr>)))
   \<and> (\<not> isWellFormed (take (if isRawPrompt then 200 else 100) prompt) \<longrightarrow>
        generateCoverImage prompt isRawPrompt w = (Inl URIError, w))
   \<and> (generateAndPublishAutoPost pf niche w = (Inr post, w') \<longrightarrow>
        (\<exists>u. coverImage post = Some u
           \<and> (startsWith u (utf16 ''https://image.pollinations.ai/prompt/'')
              \<or> startsWith u (utf16 ''https://picsum.photos/800/400?random=''))))"
proof -
  have "\<exists>u. coverImage post = Some u
           \<and> (startsWith u (utf16 ''https://image.pollinations.ai/prompt/'')
              \<or> startsWith u (utf16 ''https://picsum.photos/800/400?random=''))"
    if "generateAndPublishAutoPost pf niche w = (Inr post, w')"
  proof -
    from generateAndPublishAutoPost_returns [OF that] obtain t g w3 where
      "publishGenerated pf t g w3 = (post, w')"
      by blast
    then have "coverImage post = Some (fst (autoPostCoverImage (topic t) w3))"
      using publishGenerated_coverImage [of pf t g w3] by simp
    with autoPostCoverImage_cases [of "topic t" w3] show ?thesis
      by blast
  qed
  with generateCoverImage_wellformed [of isRawPrompt prompt w]
    generateCoverImage_malformed [of isRawPrompt prompt w]
  show ?thesis by blast
qed

theorem generateCoverImage_outcomes_witness:
  "isWellFormed (take 100 (utf16 ''How to Brew Tea''))
   \<and> (\<exists>finalPrompt. generateCoverImage (utf16 ''How to Brew Tea'') False tea_world =
         (Inr (utf16 ''https://image.pollinations.ai/prompt/'' @ finalPrompt @
               utf16 ''?width=1000&height=500&nologo=true&seed=250000''),
          tea_world\<lparr>random_calls := 1\<rparr>))
   \<and> \<not> isWellFormed (take 100 emoji_topic)
   \<and> generateCoverImage emoji_topic False tea_world = (Inl URIError, tea_world)
   \<and> (\<exists>post w'. generateAndPublishAutoPost (tea_platform (utf16 ''How to Brew Tea'')) (utf16 ''tea'')
          tea_world = (Inr post, w')
        \<and> (\<exists>u. coverImage post = Some u
           \<and> (startsWith u (utf16 ''https://image.pollinations.ai/prompt/'')
              \<or> startsWith u (utf16 ''https://picsum.photos/800/400?random=''))))"
proof -
  have wf: "isWellFormed (utf16 ''How to Brew Tea'')"
    unfolding utf16_def by code_simp
  then have wf1: "isWellFormed (take (if False then 200 else 100) (utf16 ''How to Brew Tea''))"
    by (simp add: utf16_def)
  have nwf: "\<not> isWellFormed (take (if False then 200 else 100) emoji_topic)"
    unfolding emoji_topic_def by code_simp
  have seed: "Number_toString (fst (random_below 1000000 tea_world)) = utf16 ''250000''"
    by (simp add: random_below_def tea_world_fields Number_toString.simps utf16_def)
  from tea_world_topics [OF wf, of "utf16 ''tea''"] obtain t where
    t: "generateTopics (tea_platform (utf16 ''How to Brew Tea'')) (utf16 ''tea'') None 3 tea_world =
     (Inr [t], tea_world\<lparr>provider_calls := Suc 0, random_calls := Suc 0\<rparr>)"
    by blast
  note run = tea_world_publish [OF t]
  note th = generateCoverImage_outcomes
  from th [of False "utf16 ''How to Brew Tea''" tea_world] wf1
  have 1: "\<exists>finalPrompt. generateCoverImage (utf16 ''How to Brew Tea'') False tea_world =
         (Inr (utf16 ''https://image.pollinations.ai/prompt/'' @ finalPrompt @
               utf16 ''?width=1000&height=500&nologo=true&seed=250000''),
          tea_world\<lparr>random_calls := 1\<rparr>)"
    by (simp add: seed tea_world_fields utf16_def)
  from th [of False emoji_topic tea_world] nwf
  have 2: "generateCoverImage emoji_topic False tea_world = (Inl URIError, tea_world)"
    by blast
  from th [where pf = "tea_platform (utf16 ''How to Brew Tea'')" and niche = "utf16 ''tea''"
      and w = tea_world] run
  have 3: "\<exists>post w'. generateAndPublishAutoPost (tea_platform (utf16 ''How to Brew Tea'')) (utf16 ''tea'')
          tea_world = (Inr post, w')
        \<and> (\<exists>u. coverImage post = Some u
           \<and> (startsWith u (utf16 ''https://image.pollinations.ai/prompt/'')
              \<or> startsWith u (utf16 ''https://picsum.photos/800/400?random='')))"
    by blast
  from wf1 nwf 1 2 3 show ?thesis by simp
qed

lemma retry_generateContent_exhausted:
  assumes "\<forall>k. \<exists>e. provider w req k = Inl e \<and> isTransient e"
  shows "\<exists>e. fst (retryWithBackoff sleep (generateContent req) r d w) =
           (Inl e, w\<lparr>provider_calls := provider_calls w + r + 1,
                     waits := waits w @ map (\<lambda>n. d * 2 ^ n) [0..<r]\<rparr>)"
  using assms
proof (induction r arbitrary: d w)
  case 0
  then obtain e where "provider w req (provider_calls w) = Inl e"
    by blast
  then show ?case
    by (simp add: retryWithBackoff.simps generateContent_def)
next
  case (Suc r)
  from Suc.prems obtain e where e: "provider w req (provider_calls w) = Inl e" "isTransient e"
    by blast
  let ?w1 = "sleep d (w\<lparr>provider_calls := Suc (provider_calls w)\<rparr>)"
  have "\<forall>k. \<exists>e. provider ?w1 req k = Inl e \<and> isTransient e"
    using Suc.prems by (simp add: sleep_def)
  from Suc.IH [OF this, of "d * 2"] obtain e' where
    "fst (retryWithBackoff sleep (generateContent req) r (d * 2) ?w1) =
       (Inl e', ?w1\<lparr>provider_calls := provider_calls ?w1 + r + 1,
                     waits := waits ?w1 @ map (\<lambda>n. d * 2 * 2 ^ n) [0..<r]\<rparr>)"
    by blast
  moreover have "map (\<lambda>n. d * 2 ^ n) [0..<Suc r] = d # map (\<lambda>n. d * 2 * 2 ^ n) [0..<r]"
    by (simp add: upt_conv_Cons map_Suc_upt [symmetric] del: upt_Suc)
  moreover have "generateContent req w = (Inl e, w\<lparr>provider_calls := Suc (provider_calls w)\<rparr>)"
    using e by (simp add: generateContent_def)
  then have "fst (retryWithBackoff sleep (generateContent req) (Suc r) d w) =
               fst (retryWithBackoff sleep (generateContent req) r (d * 2) ?w1)"
    using e by (simp add: retryWithBackoff.simps [of sleep _ "Suc r"] split: prod.splits)
  moreover have "?w1\<lparr>provider_calls := provider_calls ?w1 + r + 1,
                     waits := waits ?w1 @ map (\<lambda>n. d * 2 * 2 ^ n) [0..<r]\<rparr> =
                 w\<lparr>provider_calls := provider_calls w + Suc r + 1,
                     waits := waits w @ d # map (\<lambda>n. d * 2 * 2 ^ n) [0..<r]\<rparr>"
    by (simp add: sleep_def)
  ultimately show ?case
    by (simp del: upt_Suc)
qed

lemma generateTopics_empty_text:
  assumes "fst (retryWithBackoff sleep (generateContent (TopicsRequest niche ctx n)) 3 2000 w) =
             (Inr response, w1)"
    and "text response = None \<or> text response = Some []"
  shows "generateTopics pf niche ctx n w = (Inr [], w1)"
  using assms by (auto simp: generateTopics_def generateTopics_try_def)

lemma generateTopics_transport_failure:
  assumes "fst (retryWithBackoff sleep (generateContent (TopicsRequest niche ctx n)) 3 2000 w) =
             (Inl e, w1)"
  shows "generateTopics pf niche ctx n w = (Inl topics_failure, w1)"
  using assms by (simp add: generateTopics_def generateTopics_try_def)

lemma generateTopics_parse_failure:
  assumes "fst (retryWithBackoff sleep (generateContent (TopicsRequest niche ctx n)) 3 2000 w) =
             (Inr response, w1)"
    and "text response = Some body" and "body \<noteq> []" and "JSON_parse_topics pf body = Inl e"
  shows "generateTopics pf niche ctx n w = (Inl topics_failure, w1)"
  using assms by (simp add: generateTopics_def generateTopics_try_def)

lemma generateTopics_exhausted:
  assumes "\<forall>k. \<exists>e. provider w (TopicsRequest niche ctx n) k = Inl e \<and> isTransient e"
  shows "generateTopics pf niche ctx n w =
           (Inl topics_failure,
            w\<lparr>provider_calls := provider_calls w + 4, waits := waits w @ [2000, 4000, 8000]\<rparr>)"
proof -
  have "map (\<lambda>n. (2000::nat) * 2 ^ n) [0..<3] = [2000, 4000, 8000]"
    by (simp add: upt_conv_Cons)
  with retry_generateContent_exhausted [OF assms, of 3 2000] obtain e where
    "fst (retryWithBackoff sleep (generateContent (TopicsRequest niche ctx n)) 3 2000 w) =
       (Inl e, w\<lparr>provider_calls := provider_calls w + 4, waits := waits w @ [2000, 4000, 8000]\<rparr>)"
    by auto
  then show ?thesis
    by (rule generateTopics_transport_failure)
qed

text \<open>
  C5. When the response that the retry policy delivers carries no text or empty text,
  \<open>generateTopics\<close> returns the empty list and does not throw. When the policy gives up
  with an error, whatever it is, \<open>generateTopics\<close> throws its own error with the fixed
  user-facing message; in particular, when the provider answers every call with a
  transient error, it does so after 4 calls and waits of 2000, 4000 and 8000
  milliseconds. When the text is not empty and \<open>JSON.parse\<close> throws, it throws the
  same error of its own.
\<close>

theorem generateTopics_outcomes:
  "(fst (retryWithBackoff sleep (generateContent (TopicsRequest niche ctx n)) 3 2000 w) =
       (Inr response, w1)
      \<and> (text response = None \<or> text response = Some []) \<longrightarrow>
    generateTopics pf niche ctx n w = (Inr [], w1))
   \<and> (fst (retryWithBackoff sleep (generateContent (TopicsRequest niche ctx n)) 3 2000 w) =
         (Inl e, w1) \<longrightarrow>
       generateTopics pf niche ctx n w = (Inl topics_failure, w1))
   \<and> ((\<forall>k. \<exists>e. provider w (TopicsRequest niche ctx n) k = Inl e \<and> isTransient e) \<longrightarrow>
       generateTopics pf niche ctx n w =
         (Inl topics_failure,
          w\<lparr>provider_calls := provider_calls w + 4, waits := waits w @ [2000, 4000, 8000]\<rparr>))
   \<and> (fst (retryWithBackoff sleep (generateContent (TopicsRequest niche ctx n)) 3 2000 w) =
         (Inr response, w1)
       \<and> text response = Some body \<and> body \<noteq> [] \<and> JSON_parse_topics pf body = Inl e \<longrightarrow>
       generateTopics pf niche ctx n w = (Inl topics_failure, w1))"
  using generateTopics_empty_text [of niche ctx n w response w1 pf]
    generateTopics_transport_failure [of niche ctx n w e w1 pf]
    generateTopics_exhausted [of w niche ctx n pf]
    generateTopics_parse_failure [of niche ctx n w response w1 body pf e]
  by blast

lemma world_fields:
  "provider silent_world = (\<lambda>req k. Inr \<lparr>text = None\<rparr>)" "provider_calls silent_world = 0"
  "provider garbled_world = (\<lambda>req k. Inr \<lparr>text = Some (utf16 ''<html>'')\<rparr>)"
  "provider_calls garbled_world = 0"
  "provider overloaded_world = (\<lambda>req k. Inl unavailable)"
  "provider_calls overloaded_world = 0" "waits overloaded_world = []"
  by (simp_all add: silent_world_def garbled_world_def overloaded_world_def tea_world_def)

theorem generateTopics_outcomes_witness:
  "generateTopics example_platform (utf16 ''tea'') None 3 silent_world =
      (Inr [], silent_world\<lparr>provider_calls := 1\<rparr>)
   \<and> generateTopics example_platform (utf16 ''tea'') None 3 overloaded_world =
      (Inl topics_failure, overloaded_world\<lparr>provider_calls := 4, waits := [2000, 4000, 8000]\<rparr>)
   \<and> generateTopics example_platform (utf16 ''tea'') None 3 garbled_world =
      (Inl topics_failure, garbled_world\<lparr>provider_calls := 1\<rparr>)"
proof -
  note th = generateTopics_outcomes [where pf = example_platform and niche = "utf16 ''tea''"
      and ctx = None and n = 3]
  have s: "fst (retryWithBackoff sleep (generateContent (TopicsRequest (utf16 ''tea'') None 3))
             3 2000 silent_world) = (Inr \<lparr>text = None\<rparr>, silent_world\<lparr>provider_calls := 1\<rparr>)"
    by (simp add: retryWithBackoff.simps generateContent_def world_fields)
  have g: "fst (retryWithBackoff sleep (generateContent (TopicsRequest (utf16 ''tea'') None 3))
             3 2000 garbled_world) =
           (Inr \<lparr>text = Some (utf16 ''<html>'')\<rparr>, garbled_world\<lparr>provider_calls := 1\<rparr>)"
    by (simp add: retryWithBackoff.simps generateContent_def world_fields)
  have p: "JSON_parse_topics example_platform (utf16 ''<html>'') = Inl (Error (utf16 ''Unexpected token''))"
    by (simp add: example_platform_def tea_platform_def utf16_def)
  have o: "\<forall>k. \<exists>e. provider overloaded_world (TopicsRequest (utf16 ''tea'') None 3) k = Inl e
             \<and> isTransient e"
    by (simp add: world_fields isTransient_unavailable)
  from th [where w = silent_world and response = "\<lparr>text = None\<rparr>"
      and ?w1.0 = "silent_world\<lparr>provider_calls := 1\<rparr>"] s
  have 1: "generateTopics example_platform (utf16 ''tea'') None 3 silent_world =
      (Inr [], silent_world\<lparr>provider_calls := 1\<rparr>)"
    by simp
  from th [where w = overloaded_world] o
  have 2: "generateTopics example_platform (utf16 ''tea'') None 3 overloaded_world =
      (Inl topics_failure, overloaded_world\<lparr>provider_calls := 4, waits := [2000, 4000, 8000]\<rparr>)"
    by (simp add: world_fields)
  from th [where w = garbled_world and response = "\<lparr>text = Some (utf16 ''<html>'')\<rparr>"
      and ?w1.0 = "garbled_world\<lparr>provider_calls := 1\<rparr>" and body = "utf16 ''<html>''"
      and e = "Error (utf16 ''Unexpected token'')"] g p
  have 3: "generateTopics example_platform (utf16 ''tea'') None 3 garbled_world =
      (Inl topics_failure, garbled_world\<lparr>provider_calls := 1\<rparr>)"
    by (simp add: utf16_def)
  from 1 2 3 show ?thesis by blast
qed

lemma tea_topics_run:
  assumes "isWellFormed subject"
    and "provider w (TopicsRequest niche None 3) (provider_calls w) =
           Inr \<lparr>text = Some (utf16 ''[tea]'')\<rparr>"
  shows "\<exists>t. generateTopics (tea_platform subject) niche None 3 w =
     (Inr [t], w\<lparr>provider_calls := Suc (provider_calls w), random_calls := Suc (random_calls w)\<rparr>)
     \<and> topic t = subject"
proof -
  from assms obtain r where r: "encodeURIComponent subject = Inr r"
    using encodeURIComponent_wellformed(1) by blast
  have c: "generateContent (TopicsRequest niche None 3) w =
             (Inr \<lparr>text = Some (utf16 ''[tea]'')\<rparr>, w\<lparr>provider_calls := Suc (provider_calls w)\<rparr>)"
    using assms(2) by (simp add: generateContent_def)
  have p: "JSON_parse_topics (tea_platform subject) (utf16 ''[tea]'') =
             Inr [tea_topic\<lparr>topic := subject\<rparr>]"
    by (simp add: tea_platform_def)
  have n: "utf16 ''[tea]'' \<noteq> []"
    by (simp add: utf16_def)
  have "\<exists>t. attach_cover_images [tea_topic\<lparr>topic := subject\<rparr>]
            (w\<lparr>provider_calls := Suc (provider_calls w)\<rparr>) =
     (Inr [t], w\<lparr>provider_calls := Suc (provider_calls w), random_calls := Suc (random_calls w)\<rparr>)
     \<and> topic t = subject"
    by (simp add: r random_below_def)
  then obtain t where
    "attach_cover_images [tea_topic\<lparr>topic := subject\<rparr>]
            (w\<lparr>provider_calls := Suc (provider_calls w)\<rparr>) =
     (Inr [t], w\<lparr>provider_calls := Suc (provider_calls w), random_calls := Suc (random_calls w)\<rparr>)"
    and "topic t = subject"
    by blast
  then show ?thesis
    using n
    by (simp add: generateTopics_def generateTopics_try_def retryWithBackoff.simps c p
          del: attach_cover_images.simps)
qed

lemma publishGenerated_post:
  "\<exists>img t_id t_created now.
     fst (publishGenerated pf t g w) =
       (basePost pf t g img t_id t_created)\<lparr>content :=
          content (basePost pf t g img t_id t_created) @ newline @ newline @
          getCombinedSchemaHtml pf now (basePost pf t g img t_id t_created)\<rparr>"
  by (auto simp: publishGenerated_def Let_def split: prod.splits)

lemma basePost_defaults:
  "category (basePost pf t g img t_id t_created) =
     (case PartialPost.category g of None \<Rightarrow> utf16 ''Auto-Generated''
      | Some c \<Rightarrow> if c = [] then utf16 ''Auto-Generated'' else c)"
  "readTime (basePost pf t g img t_id t_created) =
     (case PartialPost.readTime g of None \<Rightarrow> utf16 ''3 min read''
      | Some c \<Rightarrow> if c = [] then utf16 ''3 min read'' else c)"
  "geoTargeting (basePost pf t g img t_id t_created) =
     Some (case PartialPost.geoTargeting g of None \<Rightarrow> utf16 ''Global''
      | Some c \<Rightarrow> if c = [] then utf16 ''Global'' else c)"
  "seoScore (basePost pf t g img t_id t_created) =
     (case PartialPost.seoScore g of None \<Rightarrow> 85 | Some x \<Rightarrow> if x = 0 then 85 else x)"
  "keywords (basePost pf t g img t_id t_created) =
     (case PartialPost.keywords g of None \<Rightarrow> [] | Some ks \<Rightarrow> ks)"
  "aeoQuestions (basePost pf t g img t_id t_created) =
     Some (case PartialPost.aeoQuestions g of None \<Rightarrow> [] | Some qs \<Rightarrow> qs)"
  "slug (basePost pf t g img t_id t_created) = slugify pf (title (basePost pf t g img t_id t_created))"
  "content (basePost pf t g img t_id t_created) = or_string (PartialPost.content g) []"
  by (simp_all add: basePost_def split: option.splits)

lemma publishGenerated_properties:
  "defaulted g (fst (publishGenerated pf t g w))
   \<and> slug (fst (publishGenerated pf t g w)) = slugify pf (title (fst (publishGenerated pf t g w)))
   \<and> (\<exists>now. content (fst (publishGenerated pf t g w)) =
         or_string (PartialPost.content g) [] @ newline @ newline @
         getCombinedSchemaHtml pf now
           ((fst (publishGenerated pf t g w))\<lparr>content := or_string (PartialPost.content g) []\<rparr>))"
proof -
  from publishGenerated_post [of pf t g w] obtain img t_id t_created now where
    p: "fst (publishGenerated pf t g w) =
       (basePost pf t g img t_id t_created)\<lparr>content :=
          content (basePost pf t g img t_id t_created) @ newline @ newline @
          getCombinedSchemaHtml pf now (basePost pf t g img t_id t_created)\<rparr>"
    by blast
  have b: "(basePost pf t g img t_id t_created)\<lparr>content := or_string (PartialPost.content g) []\<rparr> =
          basePost pf t g img t_id t_created"
    by (simp add: basePost_def)
  have "defaulted g (fst (publishGenerated pf t g w))"
    unfolding p defaulted_def by (simp add: basePost_defaults)
  moreover have "slug (fst (publishGenerated pf t g w)) =
      slugify pf (title (fst (publishGenerated pf t g w)))"
    unfolding p by (simp add: basePost_defaults)
  moreover have "content (fst (publishGenerated pf t g w)) =
         or_string (PartialPost.content g) [] @ newline @ newline @
         getCombinedSchemaHtml pf now
           ((fst (publishGenerated pf t g w))\<lparr>content := or_string (PartialPost.content g) []\<rparr>)"
    unfolding p by (simp add: b basePost_defaults)
  ultimately show ?thesis by blast
qed


text \<open>
  C6, as amended. \<open>generateAndPublishAutoPost\<close> throws when \<open>generateTopics\<close> returns no
  topic. An error thrown by \<open>generateTopics\<close> or by \<open>generateFullPost\<close> propagates. When
  \<open>generateTopics\<close> returns topics and \<open>generateFullPost\<close> returns a post for the picked
  one, it returns a post whose optional fields are defaulted where absent (category
  \<open>Auto-Generated\<close>, read time \<open>3 min read\<close>, geo targeting \<open>Global\<close>, SEO score 85, no
  keywords, no questions), whose slug is the slug of its title, and whose content is
  the generated content, two line feeds, and the markup of the aggregator for the post
  with the generated content.
\<close>

theorem generateAndPublishAutoPost_outcomes:
  "(generateTopics pf niche None 3 w = (Inr [], w1) \<longrightarrow>
      generateAndPublishAutoPost pf niche w =
        (Inl (Error (utf16 ''Failed to auto-generate topics'')), w1))
   \<and> (generateTopics pf niche None 3 w = (Inl e, w1) \<longrightarrow>
        generateAndPublishAutoPost pf niche w = (Inl e, w1))
   \<and> (generateTopics pf niche None 3 w = (Inr topics, w1) \<and> topics \<noteq> []
        \<and> random_below (length topics) w1 = (i, w2) \<and> i < length topics
        \<and> generateFullPost pf (topic (topics ! i)) (utf16 ''Professional & Engaging'') None w2 =
            (Inl e, w3) \<longrightarrow>
        generateAndPublishAutoPost pf niche w = (Inl e, w3))
   \<and> (generateTopics pf niche None 3 w = (Inr topics, w1) \<and> topics \<noteq> []
        \<and> random_below (length topics) w1 = (i, w2) \<and> i < length topics
        \<and> generateFullPost pf (topic (topics ! i)) (utf16 ''Professional & Engaging'') None w2 =
            (Inr generated, w3) \<longrightarrow>
        (\<exists>post w4. generateAndPublishAutoPost pf niche w = (Inr post, w4)
           \<and> defaulted generated post
           \<and> slug post = slugify pf (title post)
           \<and> (\<exists>now. content post =
                 or_string (PartialPost.content generated) [] @ newline @ newline @
                 getCombinedSchemaHtml pf now
                   (post\<lparr>content := or_string (PartialPost.content generated) []\<rparr>))))"
proof -
  have "\<exists>post w4. generateAndPublishAutoPost pf niche w = (Inr post, w4)
           \<and> defaulted generated post
           \<and> slug post = slugify pf (title post)
           \<and> (\<exists>now. content post =
                 or_string (PartialPost.content generated) [] @ newline @ newline @
                 getCombinedSchemaHtml pf now
                   (post\<lparr>content := or_string (PartialPost.content generated) []\<rparr>))"
    if "generateTopics pf niche None 3 w = (Inr topics, w1)" "topics \<noteq> []"
      "random_below (length topics) w1 = (i, w2)" "i < length topics"
      "generateFullPost pf (topic (topics ! i)) (utf16 ''Professional & Engaging'') None w2 =
            (Inr generated, w3)"
  proof -
    from that have "generateAndPublishAutoPost pf niche w =
        (Inr (fst (publishGenerated pf (topics ! i) generated w3)),
         snd (publishGenerated pf (topics ! i) generated w3))"
      by (simp add: generateAndPublishAutoPost_def split: prod.splits)
    with publishGenerated_properties [of generated pf "topics ! i" w3] show ?thesis
      by simp
  qed
  then show ?thesis
    by (auto simp: generateAndPublishAutoPost_def)
qed


lemma postless_world_fields:
  "provider postless_world = postless_provider" "provider_calls postless_world = 0"
  "random postless_world = (\<lambda>k. 1 / 4)" "random_calls postless_world = 0"
  by (simp_all add: postless_world_def tea_world_def)

lemma slug_of_tea:
  "slugify example_platform (utf16 ''How to Brew Tea!'') = utf16 ''how-to-brew-tea''"
  by (simp add: slugify_def example_platform_def tea_platform_def ascii_toLowerCase_def utf16_def
        regex_word_def regex_space_def)

theorem generateAndPublishAutoPost_outcomes_witness:
  "generateAndPublishAutoPost example_platform (utf16 ''tea'') silent_world =
      (Inl (Error (utf16 ''Failed to auto-generate topics'')), silent_world\<lparr>provider_calls := 1\<rparr>)
   \<and> fst (generateAndPublishAutoPost example_platform (utf16 ''tea'') overloaded_world) =
       Inl topics_failure
   \<and> fst (generateAndPublishAutoPost example_platform (utf16 ''tea'') postless_world) =
       Inl post_failure
   \<and> (\<exists>post w4. generateAndPublishAutoPost example_platform (utf16 ''tea'') tea_world = (Inr post, w4)
        \<and> title post = utf16 ''How to Brew Tea!''
        \<and> slug post = utf16 ''how-to-brew-tea''
        \<and> category post = utf16 ''Auto-Generated''
        \<and> readTime post = utf16 ''3 min read''
        \<and> geoTargeting post = Some (utf16 ''Global'')
        \<and> seoScore post = 85
        \<and> keywords post = []
        \<and> aeoQuestions post = Some [])"
proof -
  note th = generateAndPublishAutoPost_outcomes [where pf = example_platform
      and niche = "utf16 ''tea''"]
  have wf: "isWellFormed (utf16 ''How to Brew Tea'')"
    unfolding utf16_def by code_simp
  \<comment> \<open>no topics\<close>
  have "generateTopics example_platform (utf16 ''tea'') None 3 silent_world =
      (Inr [], silent_world\<lparr>provider_calls := 1\<rparr>)"
    by (simp add: generateTopics_def generateTopics_try_def retryWithBackoff.simps
          generateContent_def world_fields)
  with th [where w = silent_world and ?w1.0 = "silent_world\<lparr>provider_calls := 1\<rparr>"]
  have 1: "generateAndPublishAutoPost example_platform (utf16 ''tea'') silent_world =
      (Inl (Error (utf16 ''Failed to auto-generate topics'')), silent_world\<lparr>provider_calls := 1\<rparr>)"
    by blast
  \<comment> \<open>the topics step fails\<close>
  have "\<forall>k. \<exists>e. provider overloaded_world (TopicsRequest (utf16 ''tea'') None 3) k = Inl e
             \<and> isTransient e"
    by (simp add: world_fields isTransient_unavailable)
  from generateTopics_exhausted [OF this, of example_platform]
    th [where w = overloaded_world and e = topics_failure]
  have 2: "fst (generateAndPublishAutoPost example_platform (utf16 ''tea'') overloaded_world) =
       Inl topics_failure"
    by simp
  \<comment> \<open>the post step fails\<close>
  from tea_topics_run [OF wf, of postless_world "utf16 ''tea''"] obtain t where
    t: "generateTopics example_platform (utf16 ''tea'') None 3 postless_world =
     (Inr [t], postless_world\<lparr>provider_calls := Suc 0, random_calls := Suc 0\<rparr>)"
    by (auto simp: postless_world_fields postless_provider_def example_platform_def)
  have r: "random_below (length [t]) (postless_world\<lparr>provider_calls := Suc 0, random_calls := Suc 0\<rparr>) =
          (0, postless_world\<lparr>provider_calls := Suc 0, random_calls := Suc (Suc 0)\<rparr>)"
    by (simp add: random_below_def postless_world_fields)
  have "\<not> isTransient (Error (utf16 ''API key not valid''))"
    by (simp add: isTransient_def error_status_def or_else_def Error_def utf16_def)
  then have f: "generateFullPost example_platform (topic ([t] ! 0)) (utf16 ''Professional & Engaging'') None
      (postless_world\<lparr>provider_calls := Suc 0, random_calls := Suc (Suc 0)\<rparr>) =
     (Inl post_failure, postless_world\<lparr>provider_calls := Suc (Suc 0), random_calls := Suc (Suc 0)\<rparr>)"
    by (simp add: generateFullPost_def generateFullPost_try_def retryWithBackoff.simps
          generateContent_def postless_world_fields postless_provider_def)
  from th [where w = postless_world and topics = "[t]" and i = 0 and e = post_failure
      and ?w1.0 = "postless_world\<lparr>provider_calls := Suc 0, random_calls := Suc 0\<rparr>"
      and ?w2.0 = "postless_world\<lparr>provider_calls := Suc 0, random_calls := Suc (Suc 0)\<rparr>"
      and ?w3.0 = "postless_world\<lparr>provider_calls := Suc (Suc 0), random_calls := Suc (Suc 0)\<rparr>"]
    t r f
  have 3: "fst (generateAndPublishAutoPost example_platform (utf16 ''tea'') postless_world) =
       Inl post_failure"
    by simp
  \<comment> \<open>a post is published\<close>
  from tea_world_topics [OF wf, of "utf16 ''tea''"] obtain u where
    u: "generateTopics example_platform (utf16 ''tea'') None 3 tea_world =
     (Inr [u], tea_world\<lparr>provider_calls := Suc 0, random_calls := Suc 0\<rparr>)"
     and su: "topic u = utf16 ''How to Brew Tea''"
    by (auto simp: example_platform_def)
  have ru: "random_below (length [u]) (tea_world\<lparr>provider_calls := Suc 0, random_calls := Suc 0\<rparr>) =
          (0, tea_world\<lparr>provider_calls := Suc 0, random_calls := Suc (Suc 0)\<rparr>)"
    by (simp add: random_below_def tea_world_fields)
  have fu: "generateFullPost example_platform (topic ([u] ! 0)) (utf16 ''Professional & Engaging'') None
      (tea_world\<lparr>provider_calls := Suc 0, random_calls := Suc (Suc 0)\<rparr>) =
     (Inr tea_generated, tea_world\<lparr>provider_calls := Suc (Suc 0), random_calls := Suc (Suc 0)\<rparr>)"
    by (simp add: tea_world_post example_platform_def)
  from th [where w = tea_world and topics = "[u]" and i = 0 and generated = tea_generated
      and ?w1.0 = "tea_world\<lparr>provider_calls := Suc 0, random_calls := Suc 0\<rparr>"
      and ?w2.0 = "tea_world\<lparr>provider_calls := Suc 0, random_calls := Suc (Suc 0)\<rparr>"
      and ?w3.0 = "tea_world\<lparr>provider_calls := Suc (Suc 0), random_calls := Suc (Suc 0)\<rparr>"]
    u ru fu
  obtain post w4 where
    p: "generateAndPublishAutoPost example_platform (utf16 ''tea'') tea_world = (Inr post, w4)"
    and d: "defaulted tea_generated post" and s: "slug post = slugify example_platform (title post)"
    by auto
  from generateAndPublishAutoPost_returns [OF p] u ru fu
  have "publishGenerated example_platform u tea_generated
          (tea_world\<lparr>provider_calls := Suc (Suc 0), random_calls := Suc (Suc 0)\<rparr>) = (post, w4)"
    by auto
  then have ti: "title post = utf16 ''How to Brew Tea!''"
    by (auto simp: publishGenerated_def basePost_def tea_generated_def Let_def utf16_def
          split: prod.splits)
  with s have "slug post = utf16 ''how-to-brew-tea''"
    by (simp add: slug_of_tea)
  with p d ti have "\<exists>post w4.
        generateAndPublishAutoPost example_platform (utf16 ''tea'') tea_world = (Inr post, w4)
        \<and> title post = utf16 ''How to Brew Tea!''
        \<and> slug post = utf16 ''how-to-brew-tea''
        \<and> category post = utf16 ''Auto-Generated''
        \<and> readTime post = utf16 ''3 min read''
        \<and> geoTargeting post = Some (utf16 ''Global'')
        \<and> seoScore post = 85
        \<and> keywords post = []
        \<and> aeoQuestions post = Some []"
    by (simp add: defaulted_def tea_generated_def)
  with 1 2 3 show ?thesis by blast
qed

text \<open>
  C6 as stated fails: with one topic returned and the request for the full post
  rejected, \<open>generateAndPublishAutoPost\<close> throws the error of \<open>generateFullPost\<close>
  instead of returning a post.
\<close>

theorem generateAndPublishAutoPost_aborts:
  "map_sum (\<lambda>e. e) length (fst (generateTopics example_platform (utf16 ''tea'') None 3 postless_world)) =
     Inr 1
   \<and> fst (generateAndPublishAutoPost example_platform (utf16 ''tea'') postless_world) =
       Inl post_failure"
proof -
  have wf: "isWellFormed (utf16 ''How to Brew Tea'')"
    unfolding utf16_def by code_simp
  from tea_topics_run [OF wf, of postless_world "utf16 ''tea''"] obtain t where
    t: "generateTopics example_platform (utf16 ''tea'') None 3 postless_world =
     (Inr [t], postless_world\<lparr>provider_calls := Suc 0, random_calls := Suc 0\<rparr>)"
    by (auto simp: postless_world_fields postless_provider_def example_platform_def)
  have r: "random_below (Suc 0) (postless_world\<lparr>provider_calls := Suc 0, random_calls := Suc 0\<rparr>) =
          (0, postless_world\<lparr>provider_calls := Suc 0, random_calls := Suc (Suc 0)\<rparr>)"
    by (simp add: random_below_def postless_world_fields)
  have "\<not> isTransient (Error (utf16 ''API key not valid''))"
    by (simp add: isTransient_def error_status_def or_else_def Error_def utf16_def)
  then have f: "generateFullPost example_platform s (utf16 ''Professional & Engaging'') None
      (postless_world\<lparr>provider_calls := Suc 0, random_calls := Suc (Suc 0)\<rparr>) =
     (Inl post_failure, postless_world\<lparr>provider_calls := Suc (Suc 0), random_calls := Suc (Suc 0)\<rparr>)"
    for s
    by (simp add: generateFullPost_def generateFullPost_try_def retryWithBackoff.simps
          generateContent_def postless_world_fields postless_provider_def)
  show ?thesis
    by (simp add: generateAndPublishAutoPost_def t r f)
qed

section \<open>Properties of the image pipeline\<close>

lemma store_loop_unrolled:
  "generateAndStoreCoverImage pf s raw cf w =
     (case store_attempt pf s raw cf w of
        (Inr r, w1) \<Rightarrow> (r, w1)
      | (Inl e1, w1) \<Rightarrow>
          (case store_attempt pf s raw cf (sleep 1000 w1) of
             (Inr r, w2) \<Rightarrow> (r, w2)
           | (Inl e2, w2) \<Rightarrow>
               (case store_attempt pf s raw cf (sleep 1000 w2) of
                  (Inr r, w3) \<Rightarrow> (r, w3)
                | (Inl e3, w3) \<Rightarrow> store_fallback s (message e3) w3)))"
  unfolding generateAndStoreCoverImage_def
  by (simp add: store_loop.simps [of _ _ _ _ 0] store_loop.simps [of _ _ _ _ "Suc 0"]
        store_loop.simps [of _ _ _ _ "Suc (Suc 0)"]
        store_loop.simps [of _ _ _ _ "Suc (Suc (Suc 0))"] maxRetries_def
        split: prod.splits sum.splits)

lemma store_fallback_wellformed:
  assumes "isWellFormed (fallback_keywords s)"
  shows "\<exists>encoded. encodeURIComponent (fallback_keywords s) = Inr encoded
     \<and> store_fallback s lastError w =
        (\<lparr>success = True,
          url = Some (utf16 ''https://loremflickr.com/800/400/'' @ encoded @ utf16 ''?lock='' @
                      Number_toString (fst (random_below 1000 w))),
          error = Some (utf16 ''AI generation failed ('' @ template_string lastError @
                        utf16 ''), using relevant fallback.'')\<rparr>,
         w\<lparr>random_calls := Suc (random_calls w)\<rparr>)"
proof -
  from assms obtain r where "encodeURIComponent (fallback_keywords s) = Inr r"
    using encodeURIComponent_wellformed(1) by blast
  then show ?thesis
    by (simp add: store_fallback_def fallback_keywords_def random_below_def)
qed

lemma store_fallback_malformed:
  assumes "\<not> isWellFormed (fallback_keywords s)"
  shows "store_fallback s lastError w =
        (\<lparr>success = False, url = None,
          error = Some (or_string lastError (utf16 ''Failed to generate or store image''))\<rparr>, w)"
proof -
  from assms have "encodeURIComponent (fallback_keywords s) = Inl URIError"
    using encodeURIComponent_wellformed(2) by blast
  then show ?thesis
    by (simp add: store_fallback_def fallback_keywords_def)
qed

lemma store_attempt_unconfigured:
  assumes "isWellFormed (take (if raw then 200 else 100) s)"
    and "unset (REMOTE_STORAGE_API_KEY w) \<or> unset (REMOTE_STORAGE_API_URL w)"
  shows "store_attempt pf s raw cf w =
           (Inr configuration_missing, w\<lparr>random_calls := Suc (random_calls w)\<rparr>)"
proof -
  from generateCoverImage_wellformed [OF assms(1), of w] obtain u where
    "generateCoverImage s raw w = (Inr u, w\<lparr>random_calls := Suc (random_calls w)\<rparr>)"
    by blast
  with assms(2) show ?thesis
    by (auto simp: store_attempt_def unset_def split: option.splits)
qed

text \<open>Nothing the pipeline does changes the environment variables.\<close>

lemma generateCoverImage_env:
  "REMOTE_STORAGE_API_KEY (snd (generateCoverImage s raw w)) = REMOTE_STORAGE_API_KEY w
   \<and> REMOTE_STORAGE_API_URL (snd (generateCoverImage s raw w)) = REMOTE_STORAGE_API_URL w"
  by (simp add: generateCoverImage_def random_below_def split: sum.splits)

lemma upload_image_outcome:
  "upload_image pf s cf k u w = (Inr r, w') \<Longrightarrow> success r"
  by (auto simp: upload_image_def split: prod.splits if_splits upload_fetch.splits sum.splits
        upload_data.splits)

lemma fetch_and_upload_outcome:
  "fetch_and_upload pf s cf i k u w = (Inr r, w') \<Longrightarrow> success r"
  by (auto simp: fetch_and_upload_def dest: upload_image_outcome
        split: prod.splits if_splits image_fetch.splits sum.splits)

lemma store_attempt_outcome:
  assumes "store_attempt pf s raw cf w = (Inr r, w')"
  shows "success r \<or>
    r = configuration_missing \<and> (unset (REMOTE_STORAGE_API_KEY w) \<or> unset (REMOTE_STORAGE_API_URL w))"
proof -
  obtain out w1 where g: "generateCoverImage s raw w = (out, w1)"
    by (cases "generateCoverImage s raw w")
  with generateCoverImage_env [of s raw w]
  have env: "REMOTE_STORAGE_API_KEY w1 = REMOTE_STORAGE_API_KEY w"
    "REMOTE_STORAGE_API_URL w1 = REMOTE_STORAGE_API_URL w"
    by simp_all
  from assms g env show ?thesis
    by (auto simp: store_attempt_def unset_def dest: fetch_and_upload_outcome
          split: sum.splits option.splits if_splits)
qed

lemma sleep_env:
  "REMOTE_STORAGE_API_KEY (sleep d w) = REMOTE_STORAGE_API_KEY w"
  "REMOTE_STORAGE_API_URL (sleep d w) = REMOTE_STORAGE_API_URL w"
  by (simp_all add: sleep_def)


lemma upload_filename_env:
  "upload_filename pf s cf w = (name, w') \<Longrightarrow>
     REMOTE_STORAGE_API_KEY w' = REMOTE_STORAGE_API_KEY w
     \<and> REMOTE_STORAGE_API_URL w' = REMOTE_STORAGE_API_URL w"
  by (auto simp: upload_filename_def Date_now_def split: option.splits if_splits)

lemma fetch_upload_env:
  "fetch_upload req w = (out, w') \<Longrightarrow>
     REMOTE_STORAGE_API_KEY w' = REMOTE_STORAGE_API_KEY w
     \<and> REMOTE_STORAGE_API_URL w' = REMOTE_STORAGE_API_URL w"
  by (auto simp: fetch_upload_def)

lemma fetch_image_env:
  "fetch_image u w = (out, w') \<Longrightarrow>
     REMOTE_STORAGE_API_KEY w' = REMOTE_STORAGE_API_KEY w
     \<and> REMOTE_STORAGE_API_URL w' = REMOTE_STORAGE_API_URL w"
  by (auto simp: fetch_image_def)

lemma upload_image_env:
  assumes "upload_image pf s cf k u w = (out, w')"
  shows "REMOTE_STORAGE_API_KEY w' = REMOTE_STORAGE_API_KEY w
     \<and> REMOTE_STORAGE_API_URL w' = REMOTE_STORAGE_API_URL w"
proof -
  obtain name w1 where n: "upload_filename pf s cf w = (name, w1)"
    by (cases "upload_filename pf s cf w")
  obtain res w2 where f: "fetch_upload (u, k, name) w1 = (res, w2)"
    by (cases "fetch_upload (u, k, name) w1")
  from assms n f have "w' = w1 \<or> w' = w2"
    by (auto simp: upload_image_def split: if_splits upload_fetch.splits sum.splits
          upload_data.splits)
  with upload_filename_env [OF n] fetch_upload_env [OF f] show ?thesis
    by auto
qed

lemma fetch_and_upload_env:
  assumes "fetch_and_upload pf s cf i k u w = (out, w')"
  shows "REMOTE_STORAGE_API_KEY w' = REMOTE_STORAGE_API_KEY w
     \<and> REMOTE_STORAGE_API_URL w' = REMOTE_STORAGE_API_URL w"
proof -
  obtain res w1 where f: "fetch_image i w = (res, w1)"
    by (cases "fetch_image i w")
  obtain o2 w2 where u: "upload_image pf s cf k u w1 = (o2, w2)"
    by (cases "upload_image pf s cf k u w1")
  from assms f u have "w' = w1 \<or> w' = w2"
    by (auto simp: fetch_and_upload_def split: if_splits image_fetch.splits sum.splits)
  with fetch_image_env [OF f] upload_image_env [OF u] show ?thesis
    by auto
qed

lemma store_attempt_env:
  assumes "store_attempt pf s raw cf w = (out, w')"
  shows "REMOTE_STORAGE_API_KEY w' = REMOTE_STORAGE_API_KEY w
     \<and> REMOTE_STORAGE_API_URL w' = REMOTE_STORAGE_API_URL w"
proof -
  obtain g w1 where g: "generateCoverImage s raw w = (g, w1)"
    by (cases "generateCoverImage s raw w")
  with generateCoverImage_env [of s raw w]
  have env: "REMOTE_STORAGE_API_KEY w1 = REMOTE_STORAGE_API_KEY w"
    "REMOTE_STORAGE_API_URL w1 = REMOTE_STORAGE_API_URL w"
    by simp_all
  have "w' = w1 \<or> (\<exists>i k u o2. fetch_and_upload pf s cf i k u w1 = (o2, w'))"
    using assms g by (auto simp: store_attempt_def split: sum.splits option.splits if_splits)
  with env fetch_and_upload_env show ?thesis
    by metis
qed


lemma store_failure_cases:
  assumes "\<not> success (fst (generateAndStoreCoverImage pf s raw cf w))"
  shows "fst (generateAndStoreCoverImage pf s raw cf w) = configuration_missing
           \<and> (unset (REMOTE_STORAGE_API_KEY w) \<or> unset (REMOTE_STORAGE_API_URL w))
         \<or> \<not> isWellFormed (fallback_keywords s)"
proof -
  obtain o1 w1 where a1: "store_attempt pf s raw cf w = (o1, w1)"
    by (cases "store_attempt pf s raw cf w")
  obtain o2 w2 where a2: "store_attempt pf s raw cf (sleep 1000 w1) = (o2, w2)"
    by (cases "store_attempt pf s raw cf (sleep 1000 w1)")
  obtain o3 w3 where a3: "store_attempt pf s raw cf (sleep 1000 w2) = (o3, w3)"
    by (cases "store_attempt pf s raw cf (sleep 1000 w2)")
  from store_attempt_env [OF a1]
  have e1: "REMOTE_STORAGE_API_KEY (sleep 1000 w1) = REMOTE_STORAGE_API_KEY w"
    "REMOTE_STORAGE_API_URL (sleep 1000 w1) = REMOTE_STORAGE_API_URL w"
    by (simp_all add: sleep_env)
  from store_attempt_env [OF a2] e1
  have e2: "REMOTE_STORAGE_API_KEY (sleep 1000 w2) = REMOTE_STORAGE_API_KEY w"
    "REMOTE_STORAGE_API_URL (sleep 1000 w2) = REMOTE_STORAGE_API_URL w"
    by (simp_all add: sleep_env)
  show ?thesis
  proof (cases o1)
    case (Inr r)
    with assms a1 store_attempt_outcome [of pf s raw cf w r w1] show ?thesis
      by (simp add: store_loop_unrolled)
  next
    case l1: (Inl x1)
    show ?thesis
    proof (cases o2)
      case (Inr r)
      with assms a1 l1 a2 store_attempt_outcome [of pf s raw cf "sleep 1000 w1" r w2] e1
      show ?thesis
        by (simp add: store_loop_unrolled)
    next
      case l2: (Inl x2)
      show ?thesis
      proof (cases o3)
        case (Inr r)
        with assms a1 l1 a2 l2 a3 store_attempt_outcome [of pf s raw cf "sleep 1000 w2" r w3] e2
        show ?thesis
          by (simp add: store_loop_unrolled)
      next
        case (Inl x3)
        show ?thesis
        proof (rule ccontr)
          assume "\<not> ?thesis"
          then have "isWellFormed (fallback_keywords s)"
            by blast
          from store_fallback_wellformed [OF this, of "message x3" w3] assms a1 l1 a2 l2 a3 Inl
          show False
            by (auto simp: store_loop_unrolled)
        qed
      qed
    qed
  qed
qed

text \<open>
  C3, as amended. When the API key or the API URL of the storage is not set or is empty,
  and the URL of the image can be built, \<open>generateAndStoreCoverImage\<close> returns the
  structured failure \<open>Remote storage configuration missing\<close> in its first attempt: it
  has called \<open>generateCoverImage\<close> (one random number is drawn) and has fetched,
  uploaded and waited for nothing. When each of its three attempts throws, it returns,
  provided the first three space-separated words of the topic have no unpaired
  surrogate, \<open>success = true\<close>, the URL of the stock-photo service built from those
  words and a random lock, and a note that quotes the last error. It returns
  \<open>success = false\<close> only for the missing configuration, or when those words cannot be
  encoded.
\<close>

theorem generateAndStoreCoverImage_outcomes:
  "(isWellFormed (take (if raw then 200 else 100) s)
      \<and> (unset (REMOTE_STORAGE_API_KEY w) \<or> unset (REMOTE_STORAGE_API_URL w)) \<longrightarrow>
    generateAndStoreCoverImage pf s raw cf w =
      (configuration_missing, w\<lparr>random_calls := Suc (random_calls w)\<rparr>))
   \<and> (store_attempt pf s raw cf w = (Inl e1, w1)
       \<and> store_attempt pf s raw cf (sleep 1000 w1) = (Inl e2, w2)
       \<and> store_attempt pf s raw cf (sleep 1000 w2) = (Inl e3, w3)
       \<and> isWellFormed (fallback_keywords s) \<longrightarrow>
       (\<exists>encoded. encodeURIComponent (fallback_keywords s) = Inr encoded
          \<and> generateAndStoreCoverImage pf s raw cf w =
             (\<lparr>success = True,
               url = Some (utf16 ''https://loremflickr.com/800/400/'' @ encoded @
                           utf16 ''?lock='' @ Number_toString (fst (random_below 1000 w3))),
               error = Some (utf16 ''AI generation failed ('' @ template_string (message e3) @
                             utf16 ''), using relevant fallback.'')\<rparr>,
              w3\<lparr>random_calls := Suc (random_calls w3)\<rparr>)))
   \<and> (\<not> success (fst (generateAndStoreCoverImage pf s raw cf w)) \<longrightarrow>
        fst (generateAndStoreCoverImage pf s raw cf w) = configuration_missing
          \<and> (unset (REMOTE_STORAGE_API_KEY w) \<or> unset (REMOTE_STORAGE_API_URL w))
        \<or> \<not> isWellFormed (fallback_keywords s))"
proof -
  have 1: "generateAndStoreCoverImage pf s raw cf w =
      (configuration_missing, w\<lparr>random_calls := Suc (random_calls w)\<rparr>)"
    if "isWellFormed (take (if raw then 200 else 100) s)"
      "unset (REMOTE_STORAGE_API_KEY w) \<or> unset (REMOTE_STORAGE_API_URL w)"
    using store_attempt_unconfigured [OF that, of pf cf]
    by (simp add: store_loop_unrolled)
  have 2: "\<exists>encoded. encodeURIComponent (fallback_keywords s) = Inr encoded
          \<and> generateAndStoreCoverImage pf s raw cf w =
             (\<lparr>success = True,
               url = Some (utf16 ''https://loremflickr.com/800/400/'' @ encoded @
                           utf16 ''?lock='' @ Number_toString (fst (random_below 1000 w3))),
               error = Some (utf16 ''AI generation failed ('' @ template_string (message e3) @
                             utf16 ''), using relevant fallback.'')\<rparr>,
              w3\<lparr>random_calls := Suc (random_calls w3)\<rparr>)"
    if "store_attempt pf s raw cf w = (Inl e1, w1)"
      "store_attempt pf s raw cf (sleep 1000 w1) = (Inl e2, w2)"
      "store_attempt pf s raw cf (sleep 1000 w2) = (Inl e3, w3)"
      "isWellFormed (fallback_keywords s)"
    using store_fallback_wellformed [OF that(4), of "message e3" w3] that(1-3)
    by (simp add: store_loop_unrolled)
  from 1 2 store_failure_cases [of pf s raw cf w] show ?thesis
    by blast
qed


lemma store_attempt_rejected:
  assumes "isWellFormed (take (if raw then 200 else 100) s)"
    and "REMOTE_STORAGE_API_KEY w = Some k" "k \<noteq> []"
    and "REMOTE_STORAGE_API_URL w = Some u" "u \<noteq> []"
    and "\<forall>i n. image_provider w i n = ImageFetchRejects e"
  shows "store_attempt pf s raw cf w =
           (Inl e, w\<lparr>random_calls := Suc (random_calls w), image_fetches := Suc (image_fetches w)\<rparr>)"
proof -
  from generateCoverImage_wellformed [OF assms(1), of w] obtain i where
    "generateCoverImage s raw w = (Inr i, w\<lparr>random_calls := Suc (random_calls w)\<rparr>)"
    by blast
  with assms(2-6) show ?thesis
    by (simp add: store_attempt_def fetch_and_upload_def fetch_image_def)
qed

lemma tea_world_storage:
  "REMOTE_STORAGE_API_KEY tea_world = Some (utf16 ''secret'')"
  "REMOTE_STORAGE_API_URL tea_world = Some (utf16 ''https://storage.example/api.php'')"
  "image_provider tea_world = (\<lambda>u k. ImageFetchRejects (Error (utf16 ''fetch failed'')))"
  "image_fetches tea_world = 0" "waits tea_world = []"
  by (simp_all add: tea_world_def)

lemma tea_keywords:
  "fallback_keywords (utf16 ''How to Brew Tea'') = utf16 ''How,to,Brew''"
  by (simp add: fallback_keywords_def utf16_def)

lemma tea_keywords_encoded:
  "encodeURIComponent (utf16 ''How,to,Brew'') = Inr (utf16 ''How%2Cto%2CBrew'')"
  by (simp add: utf16_def uri_unreserved_def leading_surrogate_def trailing_surrogate_def
        percent_escapes_def percent_escape_def utf8_octets_def hex_digit_def)

theorem generateAndStoreCoverImage_outcomes_witness:
  "generateAndStoreCoverImage example_platform (utf16 ''How to Brew Tea'') False None tea_world =
     (\<lparr>success = True,
       url = Some (utf16 ''https://loremflickr.com/800/400/How%2Cto%2CBrew?lock=250''),
       error = Some (utf16 ''AI generation failed (fetch failed), using relevant fallback.'')\<rparr>,
      tea_world\<lparr>random_calls := 4, image_fetches := 3, waits := [1000, 1000]\<rparr>)
   \<and> generateAndStoreCoverImage example_platform (utf16 ''How to Brew Tea'') False None keyed_world =
       (configuration_missing, keyed_world\<lparr>random_calls := 1\<rparr>)
   \<and> \<not> success (fst (generateAndStoreCoverImage example_platform (utf16 ''How to Brew Tea'') False
          None keyed_world))
   \<and> unset (REMOTE_STORAGE_API_URL keyed_world)"
proof -
  note th = generateAndStoreCoverImage_outcomes [where pf = example_platform
      and s = "utf16 ''How to Brew Tea''" and raw = False and cf = None]
  let ?e = "Error (utf16 ''fetch failed'')"
  have wf: "isWellFormed (take (if False then 200 else 100) (utf16 ''How to Brew Tea''))"
    unfolding utf16_def by code_simp
  have kw: "isWellFormed (fallback_keywords (utf16 ''How to Brew Tea''))"
    unfolding tea_keywords utf16_def by code_simp
  let ?w1 = "tea_world\<lparr>random_calls := Suc 0, image_fetches := Suc 0\<rparr>"
  let ?w2 = "tea_world\<lparr>random_calls := Suc (Suc 0), image_fetches := Suc (Suc 0), waits := [1000]\<rparr>"
  let ?w3 = "tea_world\<lparr>random_calls := Suc (Suc (Suc 0)), image_fetches := Suc (Suc (Suc 0)),
                waits := [1000, 1000]\<rparr>"
  have a1: "store_attempt example_platform (utf16 ''How to Brew Tea'') False None tea_world = (Inl ?e, ?w1)"
    using store_attempt_rejected [OF wf, of tea_world _ _ ?e example_platform None]
    by (simp add: tea_world_storage tea_world_fields utf16_def)
  have a2: "store_attempt example_platform (utf16 ''How to Brew Tea'') False None (sleep 1000 ?w1) =
      (Inl ?e, ?w2)"
    using store_attempt_rejected [OF wf, of "sleep 1000 ?w1" _ _ ?e example_platform None]
    by (simp add: tea_world_storage tea_world_fields utf16_def sleep_def)
  have a3: "store_attempt example_platform (utf16 ''How to Brew Tea'') False None (sleep 1000 ?w2) =
      (Inl ?e, ?w3)"
    using store_attempt_rejected [OF wf, of "sleep 1000 ?w2" _ _ ?e example_platform None]
    by (simp add: tea_world_storage tea_world_fields utf16_def sleep_def)
  have n: "Number_toString (fst (random_below 1000 ?w3)) = utf16 ''250''"
    by (simp add: random_below_def tea_world_fields Number_toString.simps utf16_def)
  from th [where w = tea_world and ?e1.0 = ?e and ?w1.0 = ?w1 and ?e2.0 = ?e and ?w2.0 = ?w2
      and ?e3.0 = ?e and ?w3.0 = ?w3] a1 a2 a3 kw
  have 1: "generateAndStoreCoverImage example_platform (utf16 ''How to Brew Tea'') False None tea_world =
     (\<lparr>success = True,
       url = Some (utf16 ''https://loremflickr.com/800/400/How%2Cto%2CBrew?lock=250''),
       error = Some (utf16 ''AI generation failed (fetch failed), using relevant fallback.'')\<rparr>,
      tea_world\<lparr>random_calls := 4, image_fetches := 3, waits := [1000, 1000]\<rparr>)"
    unfolding n tea_keywords tea_keywords_encoded
    by (simp add: Error_def utf16_def)
  have u: "unset (REMOTE_STORAGE_API_URL keyed_world)"
    by (simp add: unset_def keyed_world_def)
  from th [where w = keyed_world] wf u
  have 2: "generateAndStoreCoverImage example_platform (utf16 ''How to Brew Tea'') False None keyed_world =
       (configuration_missing, keyed_world\<lparr>random_calls := 1\<rparr>)"
    by (simp add: keyed_world_def tea_world_def)
  then have "\<not> success (fst (generateAndStoreCoverImage example_platform (utf16 ''How to Brew Tea'')
      False None keyed_world))"
    by (simp add: configuration_missing_def)
  with 1 2 u show ?thesis by blast
qed

lemma emoji_keywords: "fallback_keywords emoji_topic = emoji_topic"
  unfolding fallback_keywords_def emoji_topic_def by code_simp

text \<open>
  C3 as stated fails. With the key set and the URL not set the result is a failure,
  though the configuration is not entirely absent. With no configuration at all and a
  topic of 99 letters followed by U+1F600, every attempt throws before the check of the
  configuration, and after two waits of a second the result is \<open>success = true\<close>. With
  no configuration and a plain topic, the failure comes after \<open>generateCoverImage\<close> has
  drawn its random seed. With the configuration present and an unpaired surrogate for
  topic, the result is a failure.
\<close>

theorem generateAndStoreCoverImage_failures:
  "REMOTE_STORAGE_API_KEY keyed_world = Some (utf16 ''secret'')
   \<and> \<not> success (fst (generateAndStoreCoverImage example_platform (utf16 ''How to Brew Tea'') False
          None keyed_world))
   \<and> REMOTE_STORAGE_API_KEY unconfigured_world = None
   \<and> REMOTE_STORAGE_API_URL unconfigured_world = None
   \<and> success (fst (generateAndStoreCoverImage example_platform emoji_topic False None
          unconfigured_world))
   \<and> waits (snd (generateAndStoreCoverImage example_platform emoji_topic False None
          unconfigured_world)) = [1000, 1000]
   \<and> random_calls (snd (generateAndStoreCoverImage example_platform (utf16 ''How to Brew Tea'') False
          None unconfigured_world)) = 1
   \<and> \<not> success (fst (generateAndStoreCoverImage example_platform [0xD83D] True None tea_world))"
proof -
  have wf: "isWellFormed (take (if False then 200 else 100) (utf16 ''How to Brew Tea''))"
    unfolding utf16_def by code_simp
  have k: "REMOTE_STORAGE_API_KEY keyed_world = Some (utf16 ''secret'')"
    by (simp add: keyed_world_def tea_world_def)
  have "unset (REMOTE_STORAGE_API_URL keyed_world)"
    by (simp add: unset_def keyed_world_def)
  with store_attempt_unconfigured [OF wf, of keyed_world example_platform None]
  have 1: "\<not> success (fst (generateAndStoreCoverImage example_platform (utf16 ''How to Brew Tea'')
      False None keyed_world))"
    by (simp add: store_loop_unrolled configuration_missing_def)
  have n: "REMOTE_STORAGE_API_KEY unconfigured_world = None"
    "REMOTE_STORAGE_API_URL unconfigured_world = None"
    by (simp_all add: unconfigured_world_def)
  have "\<not> isWellFormed (take (if False then 200 else 100) emoji_topic)"
    unfolding emoji_topic_def by code_simp
  from generateCoverImage_malformed [OF this]
  have a: "store_attempt example_platform emoji_topic False None w = (Inl URIError, w)" for w
    by (simp add: store_attempt_def)
  have "isWellFormed (fallback_keywords emoji_topic)"
    unfolding emoji_keywords emoji_topic_def by code_simp
  from store_fallback_wellformed [OF this, of "message URIError"
      "sleep 1000 (sleep 1000 unconfigured_world)"]
  have 2: "success (fst (generateAndStoreCoverImage example_platform emoji_topic False None
          unconfigured_world))
     \<and> waits (snd (generateAndStoreCoverImage example_platform emoji_topic False None
          unconfigured_world)) = [1000, 1000]"
    by (auto simp: store_loop_unrolled a sleep_def unconfigured_world_def tea_world_def)
  have "unset (REMOTE_STORAGE_API_KEY unconfigured_world)"
    by (simp add: unset_def n)
  with store_attempt_unconfigured [OF wf, of unconfigured_world example_platform None]
  have 3: "random_calls (snd (generateAndStoreCoverImage example_platform (utf16 ''How to Brew Tea'')
      False None unconfigured_world)) = 1"
    by (simp add: store_loop_unrolled unconfigured_world_def tea_world_def)
  have "\<not> isWellFormed (take (if True then 200 else 100) [0xD83D])"
    by code_simp
  from generateCoverImage_malformed [OF this]
  have b: "store_attempt example_platform [0xD83D] True None w = (Inl URIError, w)" for w
    by (simp add: store_attempt_def)
  have "\<not> isWellFormed (fallback_keywords [0xD83D])"
    unfolding fallback_keywords_def by code_simp
  from store_fallback_malformed [OF this]
  have 4: "\<not> success (fst (generateAndStoreCoverImage example_platform [0xD83D] True None tea_world))"
    by (simp add: store_loop_unrolled b)
  from k 1 n 2 3 4 show ?thesis by blast
qed

section \<open>Properties of the posts API\<close>

lemma map_of_update_property:
  "map_of (update_property k v r) k' = (if k' = k then Some v else map_of r k')"
  by (induction r) auto

lemma map_of_fold_update:
  "map_of (fold (\<lambda>(k, v). update_property k v) ups r) k =
     (case map_of (rev ups) k of None \<Rightarrow> map_of r k | Some v \<Rightarrow> Some v)"
proof (induction ups arbitrary: r)
  case Nil
  show ?case by simp
next
  case (Cons u ups)
  obtain k' v' where u: "u = (k', v')" by (cases u)
  show ?case
    by (simp add: Cons.IH u map_of_update_property map_add_def split: option.splits)
qed

lemma written_inserted: "written pf post (POST_insert_values pf post)"
  by (simp add: written_def POST_insert_values_def utf16_def)

lemma map_of_updated:
  "map_of (rev (POST_update_values pf post)) (utf16 ''id'') = None"
  "map_of (rev (POST_update_values pf post)) (utf16 ''keywords'') =
     Some (cell_of_text (JSON_stringify pf (property (utf16 ''keywords'') post) 0))"
  "map_of (rev (POST_update_values pf post)) (utf16 ''aeoQuestions'') =
     Some (cell_of_text (JSON_stringify pf (property (utf16 ''aeoQuestions'') post) 0))"
  "map_of (rev (POST_update_values pf post)) (utf16 ''steps'') =
     Some (cell_of_text
       (JSON_stringify pf (or_else (property (utf16 ''steps'') post) (Array [])) 0))"
  "map_of (rev (POST_update_values pf post)) (utf16 ''commercialIntent'') =
     Some (Number (if truthy (property (utf16 ''commercialIntent'') post) then 1 else 0))"
  "map_of (rev (POST_update_values pf post)) (utf16 ''isHowTo'') =
     Some (Number (if truthy (property (utf16 ''isHowTo'') post) then 1 else 0))"
  by (simp_all add: POST_update_values_def utf16_def)

lemma inserted_id:
  "map_of (POST_insert_values pf post) (utf16 ''id'') = Some (cell (property (utf16 ''id'') post))"
  by (simp add: POST_insert_values_def utf16_def)

lemma written_updated:
  assumes "map_of r (utf16 ''id'') = map_of (POST_insert_values pf post) (utf16 ''id'')"
  shows "written pf post (fold (\<lambda>(k, v). update_property k v) (POST_update_values pf post) r)"
  using assms unfolding written_def
  by (simp add: map_of_fold_update map_of_updated inserted_id)


lemma GET_row_written:
  assumes "written pf post r"
    and "json_roundtrip pf (property (utf16 ''keywords'') post)"
    and "json_roundtrip pf (property (utf16 ''aeoQuestions'') post)"
    and "json_roundtrip pf (or_else (property (utf16 ''steps'') post) (Array []))"
  shows "\<exists>f. GET_row pf r = Inr f \<and> restored post f"
proof -
  from assms(2) obtain tk where tk:
    "JSON_stringify pf (property (utf16 ''keywords'') post) 0 = Some tk" "tk \<noteq> []"
    "JSON_parse pf (String tk) = Inr (property (utf16 ''keywords'') post)"
    by (auto simp: json_roundtrip_def split: option.splits)
  from assms(3) obtain tq where tq:
    "JSON_stringify pf (property (utf16 ''aeoQuestions'') post) 0 = Some tq"
    "JSON_parse pf (String tq) = Inr (property (utf16 ''aeoQuestions'') post)"
    by (auto simp: json_roundtrip_def split: option.splits)
  from assms(4) obtain ts where ts:
    "JSON_stringify pf (or_else (property (utf16 ''steps'') post) (Array [])) 0 = Some ts"
    "ts \<noteq> []"
    "JSON_parse pf (String ts) = Inr (or_else (property (utf16 ''steps'') post) (Array []))"
    by (auto simp: json_roundtrip_def split: option.splits)
  from assms(1) have cells:
    "map_of r (utf16 ''id'') = Some (cell (property (utf16 ''id'') post))"
    "map_of r (utf16 ''keywords'') = Some (String tk)"
    "map_of r (utf16 ''aeoQuestions'') = Some (String tq)"
    "map_of r (utf16 ''steps'') = Some (String ts)"
    "map_of r (utf16 ''commercialIntent'') =
       Some (Number (if truthy (property (utf16 ''commercialIntent'') post) then 1 else 0))"
    "map_of r (utf16 ''isHowTo'') =
       Some (Number (if truthy (property (utf16 ''isHowTo'') post) then 1 else 0))"
    by (simp_all add: written_def tk tq ts)
  have keys: "utf16 ''id'' \<noteq> utf16 ''keywords''" "utf16 ''id'' \<noteq> utf16 ''aeoQuestions''"
    "utf16 ''id'' \<noteq> utf16 ''steps''" "utf16 ''id'' \<noteq> utf16 ''commercialIntent''"
    "utf16 ''id'' \<noteq> utf16 ''isHowTo''"
    "utf16 ''keywords'' \<noteq> utf16 ''aeoQuestions''" "utf16 ''keywords'' \<noteq> utf16 ''steps''"
    "utf16 ''keywords'' \<noteq> utf16 ''commercialIntent''" "utf16 ''keywords'' \<noteq> utf16 ''isHowTo''"
    "utf16 ''aeoQuestions'' \<noteq> utf16 ''steps''"
    "utf16 ''aeoQuestions'' \<noteq> utf16 ''commercialIntent''"
    "utf16 ''aeoQuestions'' \<noteq> utf16 ''isHowTo''"
    "utf16 ''steps'' \<noteq> utf16 ''commercialIntent''" "utf16 ''steps'' \<noteq> utf16 ''isHowTo''"
    "utf16 ''commercialIntent'' \<noteq> utf16 ''isHowTo''"
    by (simp_all add: utf16_def)
  have g: "GET_row pf r =
     Inr (update_property (utf16 ''isHowTo'')
            (Boolean (truthy (property (utf16 ''isHowTo'') post)))
         (update_property (utf16 ''commercialIntent'')
            (Boolean (truthy (property (utf16 ''commercialIntent'') post)))
         (update_property (utf16 ''steps'') (or_else (property (utf16 ''steps'') post) (Array []))
         (update_property (utf16 ''aeoQuestions'') (property (utf16 ''aeoQuestions'') post)
         (update_property (utf16 ''keywords'') (property (utf16 ''keywords'') post) r)))))"
    unfolding GET_row_def by (simp add: cells tk tq ts)
  show ?thesis
    unfolding g restored_def
    by (simp add: map_of_update_property cells keys keys [symmetric])
qed

lemma POST_rows:
  "(\<exists>r \<in> set (POST pf post tbl). written pf post r)
   \<and> (\<forall>r \<in> set (POST pf post tbl). r \<in> set tbl \<or> written pf post r)"
  unfolding POST_def insert_or_update_def
  using written_inserted [of pf post] written_updated [of _ pf post]
  by (auto simp: list_ex_iff)

lemma map_rows_all:
  assumes "\<forall>r \<in> set rs. \<exists>p. f r = Inr p"
  shows "\<exists>ps. map_rows f rs = Inr ps \<and> (\<forall>r \<in> set rs. \<forall>p. f r = Inr p \<longrightarrow> p \<in> set ps)"
  using assms by (induction rs) auto

text \<open>
  C7. A post saved by \<open>POST\<close> is listed by \<open>GET\<close> with its \<open>keywords\<close>,
  \<open>aeoQuestions\<close> and \<open>steps\<close> parsed back to the values that were saved (an absent
  \<open>steps\<close> reads as the empty array), and its \<open>commercialIntent\<close> and \<open>isHowTo\<close> as
  booleans, not the integers 0 and 1 of the table. This holds when the three values
  survive the round trip through JSON text on the platform, and the other rows of the
  table can be read (one row that \<open>JSON.parse\<close> rejects makes \<open>GET\<close> answer 500).
\<close>

theorem posts_roundtrip:
  assumes "json_roundtrip pf (property (utf16 ''keywords'') post)"
    and "json_roundtrip pf (property (utf16 ''aeoQuestions'') post)"
    and "json_roundtrip pf (or_else (property (utf16 ''steps'') post) (Array []))"
    and "\<forall>r \<in> set tbl. \<exists>p. GET_row pf r = Inr p"
  shows "\<exists>ps. GET pf datetime_order (POST pf post tbl) = Inr ps
           \<and> (\<exists>f \<in> set ps. restored post f)"
proof -
  have all: "\<forall>r \<in> set (select_all_desc datetime_order (POST pf post tbl)). \<exists>p. GET_row pf r = Inr p"
  proof
    fix r
    assume "r \<in> set (select_all_desc datetime_order (POST pf post tbl))"
    then have "r \<in> set (POST pf post tbl)"
      by (simp add: select_all_desc_def)
    with POST_rows [of pf post tbl] have "r \<in> set tbl \<or> written pf post r"
      by blast
    then show "\<exists>p. GET_row pf r = Inr p"
      using assms(4) GET_row_written [OF _ assms(1-3), of r] by blast
  qed
  from map_rows_all [OF this] obtain ps where
    ps: "map_rows (GET_row pf) (select_all_desc datetime_order (POST pf post tbl)) = Inr ps"
    and mem: "\<forall>r \<in> set (select_all_desc datetime_order (POST pf post tbl)).
               \<forall>p. GET_row pf r = Inr p \<longrightarrow> p \<in> set ps"
    by blast
  from POST_rows [of pf post tbl] obtain r where
    r: "r \<in> set (POST pf post tbl)" "written pf post r"
    by blast
  from GET_row_written [OF r(2) assms(1-3)] obtain f where
    f: "GET_row pf r = Inr f" "restored post f"
    by blast
  from r(1) have "r \<in> set (select_all_desc datetime_order (POST pf post tbl))"
    by (simp add: select_all_desc_def)
  with mem f(1) have "f \<in> set ps"
    by blast
  with ps f(2) show ?thesis
    unfolding GET_def by blast
qed


lemma saved_post_fields:
  "property (utf16 ''keywords'') saved_post = Array [lit ''tea'']"
  "property (utf16 ''aeoQuestions'') saved_post = Array [Object
         [(utf16 ''question'', lit ''Which water?''), (utf16 ''answer'', lit ''Fresh water.'')]]"
  "property (utf16 ''steps'') saved_post = Undefined"
  "property (utf16 ''commercialIntent'') saved_post = Boolean True"
  "property (utf16 ''isHowTo'') saved_post = Boolean False"
  by (simp_all add: saved_post_def utf16_def)

lemma codec_texts:
  "keywords_text \<noteq> []" "questions_text \<noteq> []" "keywords_text \<noteq> questions_text"
  "questions_text \<noteq> utf16 ''[]''" "keywords_text \<noteq> utf16 ''[]''" "utf16 ''[]'' \<noteq> []"
  by (simp_all add: keywords_text_def questions_text_def utf16_def)

theorem posts_roundtrip_witness:
  "json_roundtrip codec_platform (Array [lit ''tea''])
   \<and> (\<exists>p. GET_row codec_platform other_row = Inr p)
   \<and> (\<exists>ps. GET codec_platform (\<lambda>v. 0) (POST codec_platform saved_post [other_row]) = Inr ps
        \<and> (\<exists>f \<in> set ps.
              property (utf16 ''keywords'') (Object f) = Array [lit ''tea'']
              \<and> property (utf16 ''steps'') (Object f) = Array []
              \<and> property (utf16 ''commercialIntent'') (Object f) = Boolean True
              \<and> property (utf16 ''isHowTo'') (Object f) = Boolean False))"
proof -
  have k: "json_roundtrip codec_platform (property (utf16 ''keywords'') saved_post)"
    by (simp add: json_roundtrip_def codec_platform_def codec_texts)
  have q: "json_roundtrip codec_platform (property (utf16 ''aeoQuestions'') saved_post)"
    by (simp add: json_roundtrip_def codec_platform_def codec_texts codec_texts [symmetric]
          saved_post_fields)
  have s: "json_roundtrip codec_platform
             (or_else (property (utf16 ''steps'') saved_post) (Array []))"
    by (simp add: json_roundtrip_def codec_platform_def codec_texts codec_texts [symmetric]
          saved_post_fields or_else_def)
  have o: "\<exists>p. GET_row codec_platform other_row = Inr p"
    by (simp add: GET_row_def other_row_def utf16_def or_else_def)
  then have t: "\<forall>r \<in> set [other_row]. \<exists>p. GET_row codec_platform r = Inr p"
    by simp
  from posts_roundtrip [OF k q s t, of "\<lambda>v. 0"] obtain ps f where
    "GET codec_platform (\<lambda>v. 0) (POST codec_platform saved_post [other_row]) = Inr ps"
    "f \<in> set ps" "restored saved_post f"
    by blast
  then have "\<exists>ps. GET codec_platform (\<lambda>v. 0) (POST codec_platform saved_post [other_row]) = Inr ps
        \<and> (\<exists>f \<in> set ps.
              property (utf16 ''keywords'') (Object f) = Array [lit ''tea'']
              \<and> property (utf16 ''steps'') (Object f) = Array []
              \<and> property (utf16 ''commercialIntent'') (Object f) = Boolean True
              \<and> property (utf16 ''isHowTo'') (Object f) = Boolean False)"
    unfolding restored_def saved_post_fields
    by (auto simp: or_else_def)
  with k o show ?thesis
    by (simp add: saved_post_fields)
qed

end
